theory Spec2Isabelle
  imports Complex_Main
begin

section \<open>The InsightGUIDE web client: a shallow embedding\<close>

text \<open>
  The client is a set of React hooks (\<^verbatim>\<open>useApiState\<close>, \<^verbatim>\<open>usePdfState\<close>,
  \<^verbatim>\<open>useUploadState\<close>, \<^verbatim>\<open>useDragDrop\<close>, \<^verbatim>\<open>usePreloadState\<close>, \<^verbatim>\<open>useUIState\<close>), the page
  that wires them together, the \<^verbatim>\<open>InsightsViewer\<close> component and a request middleware.
  A hook's state is a record, a handler is a function from the state before the call
  to the state after it, and what a handler reads from the browser (the network, the
  DOM, the clock, the environment variables) is an explicit argument. JavaScript
  strings are modelled as \<open>string\<close> (ASCII), \<open>null\<close>/\<open>undefined\<close> as \<open>None\<close>.
  JavaScript numbers that hold page numbers and sizes are \<open>int\<close>/\<open>nat\<close>; the zoom
  factor and scroll offsets are \<open>real\<close>: rounding of IEEE doubles is not modelled.
\<close>

subsection \<open>usePdfState: the PDF preview state\<close>

record PdfState =
  pdfUrl :: "string option"
  numPages :: "int option"
  currentPage :: int
  fileName :: "string option"
  pdfDisplayWidth :: "real option"
  pdfZoom :: real
  scrollPosition :: real
  resetKey :: int

text \<open>\<^verbatim>\<open>Partial<PdfState>\<close>: a field is \<open>None\<close> when the key is absent from the object.\<close>

record PdfUpdates =
  set_pdfUrl :: "string option option"
  set_numPages :: "int option option"
  set_currentPage :: "int option"
  set_fileName :: "string option option"
  set_pdfDisplayWidth :: "real option option"
  set_pdfZoom :: "real option"
  set_scrollPosition :: "real option"
  set_resetKey :: "int option"

definition no_updates :: PdfUpdates where
  "no_updates = \<lparr>set_pdfUrl = None, set_numPages = None, set_currentPage = None,
     set_fileName = None, set_pdfDisplayWidth = None, set_pdfZoom = None,
     set_scrollPosition = None, set_resetKey = None\<rparr>"

definition MIN_ZOOM :: real where "MIN_ZOOM = 0.1"
definition MAX_ZOOM :: real where "MAX_ZOOM = 2.0"
definition ZOOM_STEP :: real where "ZOOM_STEP = 0.1"

definition initialPdfState :: PdfState where
  "initialPdfState = \<lparr>pdfUrl = None, numPages = None, currentPage = 1, fileName = None,
     pdfDisplayWidth = None, pdfZoom = 1.0, scrollPosition = 0, resetKey = 0\<rparr>"

text \<open>\<^verbatim>\<open>setPdfState(prev => ({ ...prev, ...updates }))\<close>\<close>

definition updatePdfState :: "PdfUpdates \<Rightarrow> PdfState \<Rightarrow> PdfState" where
  "updatePdfState u prev =
     \<lparr>pdfUrl = (case set_pdfUrl u of None \<Rightarrow> pdfUrl prev | Some v \<Rightarrow> v),
      numPages = (case set_numPages u of None \<Rightarrow> numPages prev | Some v \<Rightarrow> v),
      currentPage = (case set_currentPage u of None \<Rightarrow> currentPage prev | Some v \<Rightarrow> v),
      fileName = (case set_fileName u of None \<Rightarrow> fileName prev | Some v \<Rightarrow> v),
      pdfDisplayWidth =
        (case set_pdfDisplayWidth u of None \<Rightarrow> pdfDisplayWidth prev | Some v \<Rightarrow> v),
      pdfZoom = (case set_pdfZoom u of None \<Rightarrow> pdfZoom prev | Some v \<Rightarrow> v),
      scrollPosition =
        (case set_scrollPosition u of None \<Rightarrow> scrollPosition prev | Some v \<Rightarrow> v),
      resetKey = (case set_resetKey u of None \<Rightarrow> resetKey prev | Some v \<Rightarrow> v)\<rparr>"

definition clearPdfState :: "PdfState \<Rightarrow> PdfState" where
  "clearPdfState prev = initialPdfState"

text \<open>
  The preview pane: the hook's state and the scroll area of the DOM that
  \<^verbatim>\<open>scrollAreaRef\<close> points to (\<open>None\<close> while the ref is \<^verbatim>\<open>null\<close>, otherwise its
  \<^verbatim>\<open>scrollTop\<close>).
\<close>

record PdfPane =
  pdfState :: PdfState
  scrollTop :: "real option"

definition saveScrollPosition :: "PdfPane \<Rightarrow> PdfPane" where
  "saveScrollPosition p =
     (case scrollTop p of
        None \<Rightarrow> p
      | Some t \<Rightarrow> p\<lparr>pdfState := updatePdfState (no_updates\<lparr>set_scrollPosition := Some t\<rparr>) (pdfState p)\<rparr>)"

text \<open>
  \<^verbatim>\<open>restoreScrollPosition\<close> is a callback of the render in which the handler was
  created: the \<^verbatim>\<open>pdfState.scrollPosition\<close> it writes back is the one of that render,
  passed here as \<open>saved\<close>. It writes the DOM only.
\<close>

definition restoreScrollPosition :: "real \<Rightarrow> PdfPane \<Rightarrow> PdfPane" where
  "restoreScrollPosition saved p =
     (if scrollTop p \<noteq> None \<and> saved > 0 then p\<lparr>scrollTop := Some saved\<rparr> else p)"

definition onDocumentLoadSuccess :: "int \<Rightarrow> PdfState \<Rightarrow> PdfState" where
  "onDocumentLoadSuccess n s =
     (let shouldResetPage = (numPages s = None);
          newCurrentPage = (if shouldResetPage then 1 else min (currentPage s) n)
      in updatePdfState
           (no_updates\<lparr>set_numPages := Some (Some n), set_currentPage := Some newCurrentPage\<rparr>) s)"

text \<open>
  The effect of \<^verbatim>\<open>usePdfState\<close> on \<^verbatim>\<open>[pdfState.pdfUrl, maximizedCard]\<close>, with its timer
  fired. \<open>prevMaximized\<close> is \<^verbatim>\<open>prevMaximizedRef.current\<close>, and \<open>offsetWidth\<close> is the width
  of the element \<^verbatim>\<open>pdfDisplayRef\<close> points to (\<open>None\<close> while the ref is \<^verbatim>\<open>null\<close>). An
  empty \<^verbatim>\<open>pdfUrl\<close> is falsy.
\<close>

datatype Card = InsightsCard | PdfCard



text \<open>\<^verbatim>\<open>pdfState.numPages || 1\<close>: \<^verbatim>\<open>null\<close> and \<^verbatim>\<open>0\<close> are falsy.\<close>

definition numPages_or_1 :: "int option \<Rightarrow> int" where
  "numPages_or_1 n = (case n of None \<Rightarrow> 1 | Some k \<Rightarrow> if k = 0 then 1 else k)"

definition goToPrevPage :: "PdfPane \<Rightarrow> PdfPane" where
  "goToPrevPage p =
     (let s = pdfState p;
          p1 = saveScrollPosition p;
          p2 = p1\<lparr>pdfState :=
                 updatePdfState (no_updates\<lparr>set_currentPage := Some (max (currentPage s - 1) 1)\<rparr>)
                   (pdfState p1)\<rparr>
      in restoreScrollPosition (scrollPosition s) p2)"

definition goToNextPage :: "PdfPane \<Rightarrow> PdfPane" where
  "goToNextPage p =
     (let s = pdfState p;
          p1 = saveScrollPosition p;
          p2 = p1\<lparr>pdfState :=
                 updatePdfState
                   (no_updates\<lparr>set_currentPage :=
                      Some (min (currentPage s + 1) (numPages_or_1 (numPages s)))\<rparr>)
                   (pdfState p1)\<rparr>
      in restoreScrollPosition (scrollPosition s) p2)"

definition handleZoomIn :: "PdfState \<Rightarrow> PdfState" where
  "handleZoomIn s =
     updatePdfState (no_updates\<lparr>set_pdfZoom := Some (min (pdfZoom s + ZOOM_STEP) MAX_ZOOM)\<rparr>) s"

definition handleZoomOut :: "PdfState \<Rightarrow> PdfState" where
  "handleZoomOut s =
     updatePdfState (no_updates\<lparr>set_pdfZoom := Some (max (pdfZoom s - ZOOM_STEP) MIN_ZOOM)\<rparr>) s"

definition handleResetZoom :: "PdfState \<Rightarrow> PdfState" where
  "handleResetZoom s = updatePdfState (no_updates\<lparr>set_pdfZoom := Some 1.0\<rparr>) s"

definition handleSetZoom :: "real \<Rightarrow> PdfState \<Rightarrow> PdfState" where
  "handleSetZoom zoom s =
     updatePdfState (no_updates\<lparr>set_pdfZoom := Some (max MIN_ZOOM (min MAX_ZOOM zoom))\<rparr>) s"

subsection \<open>JavaScript strings and JSON values\<close>

text \<open>
  The string methods the client calls. \<open>startsWith s p\<close> is \<^verbatim>\<open>s.startsWith(p)\<close>,
  \<open>str_includes s p\<close> is \<^verbatim>\<open>s.includes(p)\<close>, and so on.
\<close>

fun startsWith :: "string \<Rightarrow> string \<Rightarrow> bool" where
  "startsWith s [] = True"
| "startsWith [] (p # ps) = False"
| "startsWith (c # cs) (p # ps) = (c = p \<and> startsWith cs ps)"

definition endsWith :: "string \<Rightarrow> string \<Rightarrow> bool" where
  "endsWith s p = startsWith (rev s) (rev p)"

fun str_includes :: "string \<Rightarrow> string \<Rightarrow> bool" where
  "str_includes [] p = (p = [])"
| "str_includes (c # cs) p = (startsWith (c # cs) p \<or> str_includes cs p)"

definition toLowerCase :: "string \<Rightarrow> string" where
  "toLowerCase s =
     map (\<lambda>c. case map_of (zip ''ABCDEFGHIJKLMNOPQRSTUVWXYZ'' ''abcdefghijklmnopqrstuvwxyz'') c of
                 None \<Rightarrow> c | Some l \<Rightarrow> l) s"

definition isWhiteSpace :: "char \<Rightarrow> bool" where
  "isWhiteSpace c = (c \<in> set [CHR '' '', CHR 0x09, CHR 0x0A, CHR 0x0B, CHR 0x0C, CHR 0x0D])"

definition trim :: "string \<Rightarrow> string" where
  "trim s = rev (dropWhile isWhiteSpace (rev (dropWhile isWhiteSpace s)))"

text \<open>\<^verbatim>\<open>s.split(d)\<close> for a one-character separator: never empty, \<^verbatim>\<open>"".split(d) = [""]\<close>.\<close>

fun split :: "char \<Rightarrow> string \<Rightarrow> string list" where
  "split d [] = [[]]"
| "split d (c # cs) =
     (if c = d then [] # split d cs
      else (case split d cs of [] \<Rightarrow> [[c]] | x # xs \<Rightarrow> (c # x) # xs))"

text \<open>Decimal rendering of a number in a template string.\<close>

definition digit :: "nat \<Rightarrow> char" where
  "digit n = ''0123456789'' ! (n mod 10)"

function show_nat :: "nat \<Rightarrow> string" where
  "show_nat n = (if n < 10 then [digit n] else show_nat (n div 10) @ [digit n])"
  by pat_completeness auto
termination
  by (relation "measure id") auto

declare show_nat.simps [simp del]

definition show_int :: "int \<Rightarrow> string" where
  "show_int i = (if i < 0 then CHR ''-'' # show_nat (nat (- i)) else show_nat (nat i))"

text \<open>
  A parsed JSON document (the value \<^verbatim>\<open>response.json()\<close> resolves to). Numbers are
  restricted to integers. An object keeps its members in the order of the text; on a
  repeated key \<^verbatim>\<open>JSON.parse\<close> keeps the last member.
\<close>

datatype json =
    JNull
  | JBool bool
  | JNum int
  | JStr string
  | JArr "json list"
  | JObj "(string \<times> json) list"

text \<open>
  \<open>getProp j k\<close> is \<^verbatim>\<open>j.k\<close> for a non-null \<open>j\<close> and a key that no prototype
  defines (\<^verbatim>\<open>insights\<close>, \<^verbatim>\<open>detail\<close>, \<^verbatim>\<open>message\<close>, \<^verbatim>\<open>error\<close>): \<open>None\<close> is
  \<^verbatim>\<open>undefined\<close>.
\<close>

definition getProp :: "json \<Rightarrow> string \<Rightarrow> json option" where
  "getProp j k = (case j of JObj members \<Rightarrow> map_of (rev members) k | _ \<Rightarrow> None)"

fun truthy :: "json \<Rightarrow> bool" where
  "truthy JNull = False"
| "truthy (JBool b) = b"
| "truthy (JNum n) = (n \<noteq> 0)"
| "truthy (JStr s) = (s \<noteq> [])"
| "truthy (JArr xs) = True"
| "truthy (JObj ms) = True"

definition join :: "string \<Rightarrow> string list \<Rightarrow> string" where
  "join sep xs = (case xs of [] \<Rightarrow> [] | y # ys \<Rightarrow> foldl (\<lambda>acc x. acc @ sep @ x) y ys)"

text \<open>\<^verbatim>\<open>String(v)\<close>, the message of \<^verbatim>\<open>new Error(v)\<close>.\<close>

fun toString :: "json \<Rightarrow> string" where
  "toString JNull = ''null''"
| "toString (JBool b) = (if b then ''true'' else ''false'')"
| "toString (JNum n) = show_int n"
| "toString (JStr s) = s"
| "toString (JArr xs) = join '','' (map (\<lambda>x. if x = JNull then [] else toString x) xs)"
| "toString (JObj ms) = ''[object Object]''"

text \<open>\<^verbatim>\<open>a || b\<close> on a property that may be \<^verbatim>\<open>undefined\<close>.\<close>

definition orElse :: "json option \<Rightarrow> json \<Rightarrow> json" where
  "orElse a b = (case a of None \<Rightarrow> b | Some v \<Rightarrow> if truthy v then v else b)"

subsection \<open>The browser: network, files, clock, environment\<close>

record File =
  file_name :: string
  file_type :: string
  file_size :: nat
  file_bytes :: string

record Blob =
  blob_size :: nat
  blob_bytes :: string

text \<open>\<^verbatim>\<open>new File([blob], name, { type })\<close>\<close>

definition newFile :: "Blob \<Rightarrow> string \<Rightarrow> string \<Rightarrow> File" where
  "newFile blob name ty =
     \<lparr>file_name = name, file_type = ty, file_size = blob_size blob, file_bytes = blob_bytes blob\<rparr>"

text \<open>
  A request as \<^verbatim>\<open>fetch\<close> sends it: the URL, the verb and the fields of the multipart
  form (empty for a GET).
\<close>

record Request =
  req_url :: string
  req_verb :: string
  req_form :: "(string \<times> File) list"

definition GET :: "string \<Rightarrow> Request" where
  "GET u = \<lparr>req_url = u, req_verb = ''GET'', req_form = []\<rparr>"

text \<open>
  A response: \<open>json_body\<close> is what \<^verbatim>\<open>response.json()\<close> settles to (\<open>Inl m\<close>: it
  rejects with an error whose message is \<open>m\<close>), \<open>text_body\<close> and \<open>blob_body\<close> what
  \<^verbatim>\<open>response.text()\<close> and \<^verbatim>\<open>response.blob()\<close> resolve to.
\<close>

record Response =
  status :: nat
  statusText :: string
  contentType :: "string option"
  json_body :: "string + json"
  text_body :: string
  blob_body :: Blob

definition ok :: "Response \<Rightarrow> bool" where
  "ok r = (200 \<le> status r \<and> status r \<le> 299)"

datatype FetchResult = Rejected string | Responded Response

datatype ReadResult = ReadLoaded string | ReadFailed

text \<open>
  Everything a handler reads from outside the hooks. \<open>fetch\<close> answers a request
  (\<open>Rejected m\<close>: the promise rejects with message \<open>m\<close>); \<open>pathname\<close> is
  \<^verbatim>\<open>new URL(url).pathname\<close> (\<open>None\<close>: the constructor throws); \<open>now\<close> is
  \<^verbatim>\<open>new Date().getTime()\<close>; \<open>readAsDataURL\<close> is the outcome of the \<^verbatim>\<open>FileReader\<close>
  (\<open>ReadLoaded r\<close>: \<^verbatim>\<open>onload\<close> with result \<open>r\<close>, empty for a missing result); the
  rest are the environment variables.
\<close>

record Browser =
  fetch :: "Request \<Rightarrow> FetchResult"
  pathname :: "string \<Rightarrow> string option"
  now :: nat
  readAsDataURL :: "File \<Rightarrow> ReadResult"
  NEXT_PUBLIC_BACKEND_BASE_URL :: "string option"
  NEXT_PUBLIC_ENABLE_TESTING :: "string option"
  NEXT_PUBLIC_ENABLE_PRELOAD :: "string option"

text \<open>A handler's outcome: the hook's new state, the calls it made to the callbacks
  it was given (in order) and the requests it sent.\<close>

record ('s, 'c) Outcome =
  state :: 's
  calls :: "'c list"
  requests :: "Request list"

subsection \<open>useUploadState: the upload form and the input modes\<close>

definition MAX_FILE_SIZE :: nat where
  "MAX_FILE_SIZE = 15 * 1024 * 1024"

definition ACCEPTED_FILE_TYPES :: "string list" where
  "ACCEPTED_FILE_TYPES = [''application/pdf'']"

text \<open>
  The value of the form field \<^verbatim>\<open>pdfFile\<close> is \<^verbatim>\<open>null\<close> (\<open>None\<close>) or a
  \<^verbatim>\<open>FileList\<close>. The three checks of \<^verbatim>\<open>formSchema\<close>, in the order of the schema;
  \<open>formSchema v\<close> is the message of the first check that fails (the one the form
  shows), \<open>None\<close> when the value is valid.
\<close>

definition isFileListOrNull :: "File list option \<Rightarrow> bool" where
  "isFileListOrNull v = (v = None \<or> (case v of None \<Rightarrow> False | Some files \<Rightarrow> length files > 0))"

definition sizeAccepted :: "File list option \<Rightarrow> bool" where
  "sizeAccepted v =
     (case v of
        None \<Rightarrow> True
      | Some files \<Rightarrow> length files = 0 \<or> file_size (hd files) \<le> MAX_FILE_SIZE)"

definition typeAccepted :: "File list option \<Rightarrow> bool" where
  "typeAccepted v =
     (case v of
        None \<Rightarrow> True
      | Some files \<Rightarrow> length files = 0 \<or> file_type (hd files) \<in> set ACCEPTED_FILE_TYPES)"

definition formSchema :: "File list option \<Rightarrow> string option" where
  "formSchema v =
     (if \<not> isFileListOrNull v then Some ''PDF file is required for analysis.''
      else if \<not> sizeAccepted v then Some ''Max file size is 15MB.''
      else if \<not> typeAccepted v then Some ''Only .pdf files are accepted.''
      else None)"

text \<open>
  The hook's state, with the state of the form it creates: \<open>pdfFile\<close> is the value
  of the field (\<^verbatim>\<open>watch("pdfFile")\<close>), \<open>pdfFileError\<close> the message of
  \<^verbatim>\<open>formErrors.pdfFile\<close>. \<open>pdfFileId\<close> stands for the identity of the \<^verbatim>\<open>FileList\<close>
  object in the field: every \<^verbatim>\<open>FileList\<close> stored is a new object, which is what an
  effect that depends on the field observes.
\<close>

record UploadState =
  isUrlMode :: bool
  isPreloadMode :: bool
  pdfUrlInputValue :: string
  isUrlLoading :: bool
  urlError :: "string option"
  isDraggingOver :: bool
  pdfFile :: "File list option"
  pdfFileId :: nat
  pdfFileError :: "string option"

text \<open>
  The operations of the form library as the hook uses them:
  \<^verbatim>\<open>setValue("pdfFile", v, { shouldValidate: true })\<close> stores the value and validates
  the field against the schema; \<^verbatim>\<open>resetField("pdfFile")\<close> restores the default value
  \<^verbatim>\<open>null\<close> and drops the field's error; \<^verbatim>\<open>clearErrors()\<close> drops the error.
\<close>

definition setValue :: "File list option \<Rightarrow> UploadState \<Rightarrow> UploadState" where
  "setValue v s =
     s\<lparr>pdfFile := v,
       pdfFileId := (case v of None \<Rightarrow> pdfFileId s | Some files \<Rightarrow> Suc (pdfFileId s)),
       pdfFileError := formSchema v\<rparr>"

definition resetField :: "UploadState \<Rightarrow> UploadState" where
  "resetField s = s\<lparr>pdfFile := None, pdfFileError := None\<rparr>"

definition clearErrors :: "UploadState \<Rightarrow> UploadState" where
  "clearErrors s = s\<lparr>pdfFileError := None\<rparr>"

text \<open>\<^verbatim>\<open>uploadedFile && uploadedFile.length > 0\<close>\<close>

definition fileLoaded :: "UploadState \<Rightarrow> bool" where
  "fileLoaded s = (case pdfFile s of None \<Rightarrow> False | Some files \<Rightarrow> length files > 0)"

definition sanitizeChar :: "char \<Rightarrow> char" where
  "sanitizeChar c =
     (if c \<in> set (''abcdefghijklmnopqrstuvwxyz'' @ ''ABCDEFGHIJKLMNOPQRSTUVWXYZ'' @
                   ''0123456789'' @ ''._-'')
      then c else CHR ''_'')"

definition extractFileNameFromUrl :: "Browser \<Rightarrow> string \<Rightarrow> string" where
  "extractFileNameFromUrl b url =
     (case pathname b url of
        None \<Rightarrow> ''downloaded_'' @ show_nat (now b) @ ''.pdf''
      | Some path \<Rightarrow>
          (let parts = split (CHR ''/'') path;
               lastPart = (if last parts = [] then ''file.pdf'' else last parts);
               sanitizedLastPart = map sanitizeChar lastPart
           in if endsWith sanitizedLastPart ''.pdf'' then sanitizedLastPart
              else take 50 sanitizedLastPart @ ''.pdf''))"

definition handleUrlModeToggle :: "bool \<Rightarrow> UploadState \<Rightarrow> UploadState" where
  "handleUrlModeToggle checked s =
     (if fileLoaded s then s
      else clearErrors
             ((resetField s)\<lparr>isUrlMode := checked, pdfUrlInputValue := [], urlError := None,
                isDraggingOver := (if checked then False else isDraggingOver s)\<rparr>))"

definition handlePreloadModeToggle :: "bool \<Rightarrow> UploadState \<Rightarrow> UploadState" where
  "handlePreloadModeToggle checked s =
     (if fileLoaded s then s
      else clearErrors
             (if checked
              then (resetField s)\<lparr>isPreloadMode := checked, isDraggingOver := False,
                     isUrlMode := False, pdfUrlInputValue := [], urlError := None\<rparr>
              else (resetField s)\<lparr>isPreloadMode := checked\<rparr>))"

datatype UploadCallback = UploadOnSuccess string

text \<open>
  The \<^verbatim>\<open>try\<close> block of \<^verbatim>\<open>handleLoadFromUrl\<close> up to the construction of the file:
  \<open>Inl m\<close> when it throws an error with message \<open>m\<close>.
\<close>

definition fetchPdfFile :: "Browser \<Rightarrow> string \<Rightarrow> string + File" where
  "fetchPdfFile b url =
     (case fetch b (GET url) of
        Rejected m \<Rightarrow> Inl m
      | Responded response \<Rightarrow>
          if \<not> ok response
          then Inl (''Failed to fetch PDF: '' @ show_nat (status response) @ '' '' @
                    statusText response @
                    ''. Server might not allow direct fetching (CORS issue).'')
          else if \<not> (case contentType response of
                        None \<Rightarrow> False
                      | Some ct \<Rightarrow> ct \<noteq> [] \<and> str_includes ct ''application/pdf'')
          then Inl ''The linked resource does not appear to be a PDF file (Content-Type mismatch).''
          else if blob_size (blob_body response) > MAX_FILE_SIZE
          then Inl ''The PDF from URL exceeds the maximum file size of 15MB.''
          else Inr (newFile (blob_body response) (extractFileNameFromUrl b url)
                      ''application/pdf''))"

definition handleLoadFromUrl ::
  "Browser \<Rightarrow> UploadState \<Rightarrow> (UploadState, UploadCallback) Outcome" where
  "handleLoadFromUrl b s =
     (let url = pdfUrlInputValue s in
      if url = [] \<or> \<not> startsWith (trim url) ''http''
      then \<lparr>state = s\<lparr>urlError :=
                Some ''Please enter a valid PDF URL (starting with http or https).''\<rparr>,
            calls = [], requests = []\<rparr>
      else
        (let s1 = s\<lparr>isUrlLoading := True, urlError := None\<rparr> in
         case fetchPdfFile b url of
           Inr file \<Rightarrow>
             \<lparr>state = (setValue (Some [file]) s1)\<lparr>pdfUrlInputValue := [], isUrlLoading := False\<rparr>,
              calls = [UploadOnSuccess (file_name file)],
              requests = [GET url]\<rparr>
         | Inl message \<Rightarrow>
             (let s2 = s1\<lparr>urlError :=
                         Some (if message \<noteq> [] then message
                               else ''Could not load PDF from the provided URL. This might be a CORS issue if fetching from a different domain.'')\<rparr>;
                  s3 = (if \<not> fileLoaded s then setValue None s2 else s2)
              in \<lparr>state = s3\<lparr>isUrlLoading := False\<rparr>, calls = [], requests = [GET url]\<rparr>)))"

definition handleClearSelection :: "UploadState \<Rightarrow> UploadState" where
  "handleClearSelection s =
     clearErrors
       ((resetField s)\<lparr>pdfUrlInputValue := [], urlError := None, isUrlMode := False,
          isPreloadMode := False\<rparr>)"


text \<open>The switches' \<^verbatim>\<open>disabled\<close> inputs that the hook computes.\<close>

definition isUrlModeDisabled :: "string option \<Rightarrow> UploadState \<Rightarrow> bool" where
  "isUrlModeDisabled selected s =
     (fileLoaded s \<or> isUrlLoading s \<or> (case selected of None \<Rightarrow> False | Some p \<Rightarrow> p \<noteq> []) \<or>
      isPreloadMode s)"

definition isPreloadModeDisabled :: "UploadState \<Rightarrow> bool" where
  "isPreloadModeDisabled s = (fileLoaded s \<or> isUrlLoading s \<or> isUrlMode s)"

subsection \<open>useApiState: submitting the PDF\<close>

record ApiState =
  insights :: "string option"
  isLoading :: bool

datatype ApiCallback = ApiOnError string | ApiOnSuccess string

text \<open>
  The message of the error thrown for a response that is not \<^verbatim>\<open>ok\<close>: the
  \<^verbatim>\<open>detail\<close>, \<^verbatim>\<open>message\<close> or \<^verbatim>\<open>error\<close> member of a JSON body (the first one
  that is truthy), else the status line. A body that is not JSON, or is \<^verbatim>\<open>null\<close>,
  makes the inner \<^verbatim>\<open>try\<close> throw, which is ignored.
\<close>

definition apiErrorMessage :: "Response \<Rightarrow> string" where
  "apiErrorMessage response =
     (let errorMsg = JStr (''API Error: '' @ show_nat (status response) @ '' '' @
                           statusText response)
      in toString
           (case json_body response of
              Inl e \<Rightarrow> errorMsg
            | Inr errorData \<Rightarrow>
                if errorData = JNull then errorMsg
                else orElse (getProp errorData ''detail'')
                       (orElse (getProp errorData ''message'')
                          (orElse (getProp errorData ''error'') errorMsg))))"

text \<open>\<^verbatim>\<open>contentType && contentType.includes("application/json")\<close>\<close>

definition isJsonContentType :: "string option \<Rightarrow> bool" where
  "isJsonContentType header =
     (case header of None \<Rightarrow> False | Some ct \<Rightarrow> ct \<noteq> [] \<and> str_includes ct ''application/json'')"

text \<open>
  The \<^verbatim>\<open>try\<close> block of \<^verbatim>\<open>submitPdf\<close> from the \<^verbatim>\<open>fetch\<close> to the value of
  \<^verbatim>\<open>insightsText\<close>: \<open>Inl m\<close> when it throws an error with message \<open>m\<close>.
\<close>

definition readInsights :: "FetchResult \<Rightarrow> string + string" where
  "readInsights result =
     (case result of
        Rejected m \<Rightarrow> Inl m
      | Responded response \<Rightarrow>
          if \<not> ok response then Inl (apiErrorMessage response)
          else if isJsonContentType (contentType response)
          then (case json_body response of
                  Inl m \<Rightarrow> Inl m
                | Inr jsonData \<Rightarrow>
                    (case (if truthy jsonData then getProp jsonData ''insights'' else None) of
                       Some (JStr text) \<Rightarrow> Inr text
                     | _ \<Rightarrow> Inl ''Invalid JSON response: 'insights' field missing or not a string.''))
          else (let textData = text_body response in
                if textData \<noteq> [] then Inr textData else Inl ''Empty response from API.''))"

text \<open>The \<^verbatim>\<open>catch\<close> block's choice of the message shown to the user.\<close>

definition friendlyMessage :: "string \<Rightarrow> string" where
  "friendlyMessage thrown =
     (let errorMessage = (if thrown \<noteq> [] then thrown
                          else ''An unknown error occurred during PDF processing.'');
          lower = toLowerCase errorMessage
      in if str_includes lower ''exceeds the model's max input limit'' \<or>
            str_includes lower ''context length'' \<or>
            str_includes lower ''token limit'' \<or>
            str_includes lower ''too long'' \<or>
            str_includes lower ''maximum length'' \<or>
            str_includes lower ''invalid_request_error''
         then ''This PDF exceeds the context length limit and is too large to process. Please try uploading a smaller PDF document with fewer pages or less text content.''
         else if str_includes lower ''timeout'' \<or> str_includes lower ''timed out''
         then ''The PDF processing timed out. This usually happens with very large files. Please try a smaller PDF document.''
         else if str_includes lower ''format'' \<or> str_includes lower ''invalid'' \<or>
                 str_includes lower ''corrupted''
         then ''Unable to process this PDF file. The file may be corrupted, password-protected, or in an unsupported format. Please try a different PDF.''
         else errorMessage)"

definition backendApiUrl :: "Browser \<Rightarrow> string option" where
  "backendApiUrl b =
     (case NEXT_PUBLIC_BACKEND_BASE_URL b of
        None \<Rightarrow> None
      | Some base \<Rightarrow> if base \<noteq> [] then Some (base @ ''/api/process-pdf/'') else None)"

definition submitPdf :: "Browser \<Rightarrow> File \<Rightarrow> ApiState \<Rightarrow> (ApiState, ApiCallback) Outcome" where
  "submitPdf b file s =
     (let formData = [(''pdf_file'', file)] in
      case backendApiUrl b of
        None \<Rightarrow>
          \<lparr>state = s\<lparr>isLoading := False\<rparr>,
           calls = [ApiOnError ''Backend API URL is not configured. Please set NEXT_PUBLIC_BACKEND_BASE_URL in your .env.local file.''],
           requests = []\<rparr>
      | Some url \<Rightarrow>
          (let request = \<lparr>req_url = url, req_verb = ''POST'', req_form = formData\<rparr> in
           case readInsights (fetch b request) of
             Inr insightsText \<Rightarrow>
               \<lparr>state = s\<lparr>insights := Some insightsText, isLoading := False\<rparr>,
                calls = [ApiOnSuccess insightsText],
                requests = [request]\<rparr>
           | Inl thrown \<Rightarrow>
               \<lparr>state = s\<lparr>isLoading := False\<rparr>,
                calls = [ApiOnError (friendlyMessage thrown)],
                requests = [request]\<rparr>))"

definition clearInsights :: "ApiState \<Rightarrow> ApiState" where
  "clearInsights s = s\<lparr>insights := None\<rparr>"


subsection \<open>useDragDrop: dropping a file\<close>

record DragDropProps =
  prop_isUrlMode :: bool
  prop_isLoading :: bool
  prop_isUrlLoading :: bool
  maxFileSize :: nat
  acceptedFileTypes :: "string list"

text \<open>The three callbacks the hook is given: \<^verbatim>\<open>onUrlModeToggle\<close>, \<^verbatim>\<open>onError\<close> and
  \<^verbatim>\<open>setValue("pdfFile", v, { shouldValidate: true })\<close>.\<close>

datatype DropCallback =
    OnUrlModeToggle bool
  | DropOnError string
  | DropSetValue "File list option"

text \<open>
  \<open>handleDrop props files\<close>: the calls made for a drop whose
  \<^verbatim>\<open>e.dataTransfer.files\<close> is \<open>files\<close> (the hook's own \<^verbatim>\<open>isDraggingOver\<close> flag is
  cleared first in every case). The size in the message is whole for the ceiling the
  page passes.
\<close>

definition handleDrop :: "DragDropProps \<Rightarrow> File list \<Rightarrow> DropCallback list" where
  "handleDrop props droppedFiles =
     (if prop_isLoading props \<or> prop_isUrlLoading props then []
      else
        (if prop_isUrlMode props then [OnUrlModeToggle False] else []) @
        (if length droppedFiles > 0 then
           (if length droppedFiles > 1
            then [DropOnError ''Please drop only one PDF file.'', DropSetValue None]
            else
              (let file = hd droppedFiles in
               if file_type file \<notin> set (acceptedFileTypes props)
               then [DropOnError ''Invalid file type. Please drop a PDF file.'', DropSetValue None]
               else if file_size file > maxFileSize props
               then [DropOnError (''File exceeds maximum size of '' @
                                  show_nat (maxFileSize props div (1024 * 1024)) @ ''MB.''),
                     DropSetValue None]
               else [DropOnError [], DropSetValue (Some droppedFiles)]))
         else []))"

subsection \<open>usePreloadState: the bundled example papers\<close>

record PreloadedPaper =
  paper_id :: string
  paper_title :: string
  paper_filename :: string

record PreloadState =
  selectedPaper :: "string option"
  isPreloadLoading :: bool
  preloadedPapers :: "PreloadedPaper list"




definition clearPreloadedPaper :: "PreloadState \<Rightarrow> PreloadState" where
  "clearPreloadedPaper s = s\<lparr>selectedPaper := None\<rparr>"

subsection \<open>useUIState and the page: wiring the hooks together\<close>

text \<open>
  The state of the page: the states of its hooks, the \<^verbatim>\<open>isDraggingOver\<close> flag of
  \<^verbatim>\<open>useDragDrop\<close>, and the log of the requests the client has sent.
\<close>

record Client =
  uiError :: "string option"
  preload :: PreloadState
  upload :: UploadState
  api :: ApiState
  pdf :: PdfState
  dropZoneDragging :: bool
  sent :: "Request list"

definition setUIError :: "string \<Rightarrow> Client \<Rightarrow> Client" where
  "setUIError message c = c\<lparr>uiError := Some message\<rparr>"

definition clearUIError :: "Client \<Rightarrow> Client" where
  "clearUIError c = c\<lparr>uiError := None\<rparr>"

definition isTestingEnabled :: "Browser \<Rightarrow> bool" where
  "isTestingEnabled b = (NEXT_PUBLIC_ENABLE_TESTING b = Some ''true'')"

definition isPreloadEnabled :: "Browser \<Rightarrow> bool" where
  "isPreloadEnabled b = (NEXT_PUBLIC_ENABLE_PRELOAD b = Some ''true'')"

text \<open>\<^verbatim>\<open>updatePdfState({ fileName })\<close>\<close>

definition setFileName :: "string \<Rightarrow> Client \<Rightarrow> Client" where
  "setFileName name c =
     c\<lparr>pdf := updatePdfState (no_updates\<lparr>set_fileName := Some (Some name)\<rparr>) (pdf c)\<rparr>"

text \<open>
  The callbacks the page gives to \<^verbatim>\<open>useApiState\<close>: \<^verbatim>\<open>onError\<close> is
  \<^verbatim>\<open>setUIError\<close>, \<^verbatim>\<open>onSuccess\<close> clears the error (and scrolls the window).
\<close>

fun apiCallback :: "ApiCallback \<Rightarrow> Client \<Rightarrow> Client" where
  "apiCallback (ApiOnError message) c = setUIError message c"
| "apiCallback (ApiOnSuccess insightsText) c = clearUIError c"

definition applyApi :: "(ApiState, ApiCallback) Outcome \<Rightarrow> Client \<Rightarrow> Client" where
  "applyApi out c =
     fold apiCallback (calls out) (c\<lparr>api := state out, sent := sent c @ requests out\<rparr>)"

text \<open>The callback given to \<^verbatim>\<open>useUploadState\<close>.\<close>

fun uploadCallback :: "UploadCallback \<Rightarrow> Client \<Rightarrow> Client" where
  "uploadCallback (UploadOnSuccess name) c = setFileName name c"


text \<open>The props and callbacks given to \<^verbatim>\<open>useDragDrop\<close>, and the drop handler wired
  to them.\<close>

definition dragDropProps :: "Client \<Rightarrow> DragDropProps" where
  "dragDropProps c =
     \<lparr>prop_isUrlMode = isUrlMode (upload c), prop_isLoading = isLoading (api c),
      prop_isUrlLoading = isUrlLoading (upload c), maxFileSize = MAX_FILE_SIZE,
      acceptedFileTypes = ACCEPTED_FILE_TYPES\<rparr>"

fun dropCallback :: "DropCallback \<Rightarrow> Client \<Rightarrow> Client" where
  "dropCallback (OnUrlModeToggle checked) c = c\<lparr>upload := handleUrlModeToggle checked (upload c)\<rparr>"
| "dropCallback (DropOnError message) c = setUIError message c"
| "dropCallback (DropSetValue v) c = c\<lparr>upload := setValue v (upload c)\<rparr>"

definition onDrop :: "File list \<Rightarrow> Client \<Rightarrow> Client" where
  "onDrop files c =
     fold dropCallback (handleDrop (dragDropProps c) files) (c\<lparr>dropZoneDragging := False\<rparr>)"

definition onLoadFromUrl :: "Browser \<Rightarrow> Client \<Rightarrow> Client" where
  "onLoadFromUrl b c =
     (let out = handleLoadFromUrl b (upload c)
      in fold uploadCallback (calls out) (c\<lparr>upload := state out, sent := sent c @ requests out\<rparr>))"

text \<open>
  The file input registered with the form (\<^verbatim>\<open>{...register("pdfFile")}\<close>): choosing
  files in the picker stores the input's \<^verbatim>\<open>FileList\<close> in the field. The form
  library validates the field on such a change only once the form has been submitted
  (\<open>wasSubmitted\<close>); before that the field is validated when the form is submitted.
  The input is disabled while the client is busy and in URL and preload mode.
\<close>

definition onFileInputChange :: "bool \<Rightarrow> File list \<Rightarrow> Client \<Rightarrow> Client" where
  "onFileInputChange wasSubmitted files c =
     (if isLoading (api c) \<or> isUrlLoading (upload c) \<or> isUrlMode (upload c) \<or>
         isPreloadMode (upload c)
      then c
      else c\<lparr>upload := (upload c)\<lparr>pdfFile := Some files,
                    pdfFileId := Suc (pdfFileId (upload c)),
                    pdfFileError := (if wasSubmitted then formSchema (Some files)
                                     else pdfFileError (upload c))\<rparr>\<rparr>)"

text \<open>\<^verbatim>\<open>selectedPaper\<close> as the page sees it: \<^verbatim>\<open>null\<close> when preloading is not
  enabled.\<close>

definition pageSelectedPaper :: "Browser \<Rightarrow> Client \<Rightarrow> string option" where
  "pageSelectedPaper b c = (if isPreloadEnabled b then selectedPaper (preload c) else None)"


definition handleClearSelectionWithInsights :: "Browser \<Rightarrow> Client \<Rightarrow> Client" where
  "handleClearSelectionWithInsights b c =
     (let wasPreloadMode =
            (isPreloadMode (upload c) \<and>
             (case pageSelectedPaper b c of None \<Rightarrow> False | Some p \<Rightarrow> p \<noteq> []));
          cleared = clearUIError
                      (c\<lparr>api := clearInsights (api c), pdf := clearPdfState (pdf c),
                         preload := clearPreloadedPaper (preload c)\<rparr>)
      in if wasPreloadMode
         then cleared\<lparr>upload := clearErrors (setValue None (upload c))\<rparr>
         else cleared\<lparr>upload := handleClearSelection (upload c)\<rparr>)"

definition handleFormSubmit :: "Browser \<Rightarrow> File list option \<Rightarrow> Client \<Rightarrow> Client" where
  "handleFormSubmit b data c =
     (case data of
        None \<Rightarrow> setUIError ''No PDF file selected or loaded to analyze.'' c
      | Some files \<Rightarrow>
          if length files = 0 then setUIError ''No PDF file selected or loaded to analyze.'' c
          else (let c1 = clearUIError c in applyApi (submitPdf b (hd files) (api c1)) c1))"

text \<open>
  \<^verbatim>\<open>handleSubmit(handleFormSubmit)\<close>, the form's \<^verbatim>\<open>onSubmit\<close>: the form library
  validates the field against the schema, records the outcome in the form's errors, and
  calls the handler with the form's data only when the data is valid.
\<close>

definition handleSubmit :: "Browser \<Rightarrow> Client \<Rightarrow> Client" where
  "handleSubmit b c =
     (let data = pdfFile (upload c);
          c1 = c\<lparr>upload := (upload c)\<lparr>pdfFileError := formSchema data\<rparr>\<rparr>
      in if formSchema data = None then handleFormSubmit b data c1 else c1)"

text \<open>
  The effect on \<^verbatim>\<open>uploadedFile\<close>: it reads the file for the preview. \<^verbatim>\<open>error\<close> in
  its body is the error of the render that scheduled it.
\<close>

definition uploadedFileEffect :: "Browser \<Rightarrow> Client \<Rightarrow> Client" where
  "uploadedFileEffect b c =
     (let noFile = c\<lparr>pdf := updatePdfState
                      (no_updates\<lparr>set_fileName := Some None, set_pdfUrl := Some None,
                         set_pdfZoom := Some 1.0, set_pdfDisplayWidth := Some None\<rparr>) (pdf c)\<rparr>
      in case pdfFile (upload c) of
           None \<Rightarrow> noFile
         | Some [] \<Rightarrow> noFile
         | Some (file # others) \<Rightarrow>
             (let c1 = setFileName (file_name file) c in
              case readAsDataURL b file of
                ReadLoaded result \<Rightarrow>
                  if result \<noteq> [] then
                    (let c2 = c1\<lparr>pdf := updatePdfState
                                 (no_updates\<lparr>set_pdfUrl := Some (Some result),
                                    set_currentPage := Some 1, set_numPages := Some None,
                                    set_pdfZoom := Some 1.0\<rparr>) (pdf c1)\<rparr>;
                         c3 = (if (case uiError c of None \<Rightarrow> False | Some e \<Rightarrow> e \<noteq> [])
                               then clearUIError c2 else c2)
                     in c3\<lparr>upload := clearErrors (upload c3)\<rparr>)
                  else
                    (let c2 = setUIError ''Failed to read file content. The result was empty.'' c1
                     in c2\<lparr>pdf := updatePdfState (no_updates\<lparr>set_pdfUrl := Some None\<rparr>) (pdf c2)\<rparr>)
              | ReadFailed \<Rightarrow>
                  (let c2 = setUIError ''Error reading the selected file. It might be corrupted or an unsupported format.'' c1
                   in c2\<lparr>pdf := updatePdfState (no_updates\<lparr>set_pdfUrl := Some None\<rparr>) (pdf c2)\<rparr>)))"

text \<open>
  A user action: the handler runs, the page renders, and the effect runs when the
  field's value is not the object it was (\<open>before\<close> is the state the handler started
  from). What happens later in the preview pane (the width timer of \<^verbatim>\<open>usePdfState\<close>,
  the \<^verbatim>\<open>Document\<close> reporting its load) is not part of \<open>act\<close>: these are the events
  \<open>displayWidthEffect\<close> and \<open>documentLoadSuccess\<close> below.
\<close>

definition rerender :: "Browser \<Rightarrow> Client \<Rightarrow> Client \<Rightarrow> Client" where
  "rerender b before after =
     (if pdfFile (upload after) = pdfFile (upload before) \<and>
         pdfFileId (upload after) = pdfFileId (upload before)
      then after else uploadedFileEffect b after)"

definition act :: "Browser \<Rightarrow> (Client \<Rightarrow> Client) \<Rightarrow> Client \<Rightarrow> Client" where
  "act b handler c = rerender b c (handler c)"





text \<open>What the page shows of the errors: the alert, and the field's message (under
  the drop zone in file mode, in the URL block in URL mode).\<close>

definition alertShown :: "Client \<Rightarrow> bool" where
  "alertShown c =
     ((case uiError c of None \<Rightarrow> False | Some e \<Rightarrow> e \<noteq> []) \<and> pdfFileError (upload c) = None)"

definition formErrorShown :: "Client \<Rightarrow> bool" where
  "formErrorShown c =
     ((pdfFileError (upload c) \<noteq> None \<and> \<not> isUrlMode (upload c) \<and> \<not> isPreloadMode (upload c)) \<or>
      (isUrlMode (upload c) \<and> pdfFileError (upload c) \<noteq> None))"

text \<open>The \<^verbatim>\<open>disabled\<close> inputs of the two mode switches.\<close>

definition urlSwitchDisabled :: "Browser \<Rightarrow> Client \<Rightarrow> bool" where
  "urlSwitchDisabled b c =
     (isLoading (api c) \<or> isUrlLoading (upload c) \<or>
      isUrlModeDisabled (pageSelectedPaper b c) (upload c))"

definition preloadSwitchDisabled :: "Client \<Rightarrow> bool" where
  "preloadSwitchDisabled c =
     (isLoading (api c) \<or> isUrlLoading (upload c) \<or> isPreloadModeDisabled (upload c))"

subsection \<open>InsightsViewer: what the report pane shows\<close>

record ViewerProps =
  view_insights :: "string option"
  view_isLoading :: bool
  view_isUrlLoading :: bool
  view_fileName :: "string option"
  view_onTestInsights :: bool

text \<open>
  The controls of the card header and the content of the card. \<open>textSize\<close> is the
  component's own state (14 at first, between 14 and 24).
\<close>

record InsightsView =
  textSizeButtons :: bool
  decreaseEnabled :: bool
  increaseEnabled :: bool
  testLoaderButton :: bool
  saveButton :: bool
  renderedMarkdown :: "string option"
  emptyPlaceholder :: bool

definition InsightsViewer :: "Browser \<Rightarrow> int \<Rightarrow> ViewerProps \<Rightarrow> InsightsView" where
  "InsightsViewer b textSize props =
     (let minTextSize = 14; maxTextSize = 24;
          hasInsights = (case view_insights props of None \<Rightarrow> False | Some md \<Rightarrow> md \<noteq> [])
      in \<lparr>textSizeButtons = hasInsights,
          decreaseEnabled = (hasInsights \<and> \<not> textSize \<le> minTextSize),
          increaseEnabled = (hasInsights \<and> \<not> textSize \<ge> maxTextSize),
          testLoaderButton = (isTestingEnabled b \<and> view_onTestInsights props),
          saveButton = hasInsights,
          renderedMarkdown = (if hasInsights then view_insights props else None),
          emptyPlaceholder =
            (\<not> hasInsights \<and> \<not> view_isLoading props \<and> \<not> view_isUrlLoading props)\<rparr>)"

text \<open>The props the page passes to the viewer.\<close>

definition viewerProps :: "Browser \<Rightarrow> Client \<Rightarrow> ViewerProps" where
  "viewerProps b c =
     \<lparr>view_insights = insights (api c), view_isLoading = isLoading (api c),
      view_isUrlLoading = isUrlLoading (upload c), view_fileName = fileName (pdf c),
      view_onTestInsights = isTestingEnabled b\<rparr>"

definition insightsPane :: "Browser \<Rightarrow> int \<Rightarrow> Client \<Rightarrow> InsightsView" where
  "insightsPane b textSize c = InsightsViewer b textSize (viewerProps b c)"

subsection \<open>middleware: the basic-auth gate\<close>

text \<open>
  The server's environment, with \<open>decodeBase64Ascii s\<close> standing for
  \<^verbatim>\<open>Buffer.from(s, 'base64').toString('ascii')\<close>.
\<close>

record ServerEnv =
  ENABLE_PASSWORD_PROTECTION :: "string option"
  PASSWORD :: "string option"
  USERNAME :: "string option"
  decodeBase64Ascii :: "string \<Rightarrow> string"

text \<open>\<open>Next\<close> is \<^verbatim>\<open>NextResponse.next()\<close>; \<open>Reply\<close> a response of the middleware's
  own, with its status, body and headers.\<close>

datatype NextResponse = Next | Reply nat string "(string \<times> string) list"

definition basicChallenge :: "(string \<times> string) list" where
  "basicChallenge =
     [(''WWW-Authenticate'',
       ''Basic realm='' @ [CHR 0x22] @ ''Scientific Paper Insights'' @ [CHR 0x22])]"

text \<open>\<open>middleware env authorization\<close>: the answer to a request whose
  \<^verbatim>\<open>authorization\<close> header is \<open>authorization\<close> (\<open>None\<close>: no such header).\<close>

definition middleware :: "ServerEnv \<Rightarrow> string option \<Rightarrow> NextResponse" where
  "middleware env authorization =
     (let isPasswordProtectionEnabled = (ENABLE_PASSWORD_PROTECTION env = Some ''true'') in
      if \<not> isPasswordProtectionEnabled then Next
      else
        (let correctPassword = PASSWORD env; correctUsername = USERNAME env in
         if correctPassword = None \<or> correctPassword = Some [] \<or>
            correctUsername = None \<or> correctUsername = Some []
         then Reply 500 ''Server configuration error'' []
         else
           (case authorization of
              None \<Rightarrow> Reply 401 ''Authentication required'' basicChallenge
            | Some authHeader \<Rightarrow>
                if authHeader = [] \<or> \<not> startsWith authHeader ''Basic ''
                then Reply 401 ''Authentication required'' basicChallenge
                else
                  (let base64Credentials = drop 6 authHeader;
                       credentials = decodeBase64Ascii env base64Credentials;
                       fields = split (CHR '':'') credentials;
                       username = Some (hd fields);
                       password = (if length fields > 1 then Some (fields ! 1) else None)
                   in if username \<noteq> correctUsername \<or> password \<noteq> correctPassword
                      then Reply 401 ''Invalid credentials'' basicChallenge
                      else Next))))"

text \<open>
  \<^verbatim>\<open>config.matcher\<close>: the paths the middleware runs on. The pattern is
  \<^verbatim>\<open>/((?!api|_next/static|_next/image|favicon.ico|.*\\.(?:svg|png|jpg|jpeg|gif|webp)$).*)\<close>,
  matched against the whole path: a path is matched when it starts with \<^verbatim>\<open>/\<close> and
  what follows is not excluded by the negative lookahead.
\<close>

definition isLineTerminator :: "char \<Rightarrow> bool" where
  "isLineTerminator c = (c = CHR 0x0A \<or> c = CHR 0x0D)"

definition imageExtensions :: "string list" where
  "imageExtensions = [''svg'', ''png'', ''jpg'', ''jpeg'', ''gif'', ''webp'']"

definition matcherExcludes :: "string \<Rightarrow> bool" where
  "matcherExcludes rest =
     (startsWith rest ''api'' \<or>
      startsWith rest ''_next/static'' \<or>
      startsWith rest ''_next/image'' \<or>
      (startsWith rest ''favicon'' \<and> length rest > 7 \<and> \<not> isLineTerminator (rest ! 7) \<and>
       startsWith (drop 8 rest) ''ico'') \<or>
      list_ex (\<lambda>ext. endsWith rest (CHR ''.'' # ext) \<and>
                 \<not> list_ex isLineTerminator (take (length rest - length ext - 1) rest))
        imageExtensions)"

definition matcher :: "string \<Rightarrow> bool" where
  "matcher path = (case path of [] \<Rightarrow> False | c # rest \<Rightarrow> c = CHR ''/'' \<and> \<not> matcherExcludes rest)"

text \<open>The framework runs the middleware on the matched paths and lets every other
  request through.\<close>

definition handleRequest :: "ServerEnv \<Rightarrow> string \<Rightarrow> string option \<Rightarrow> NextResponse" where
  "handleRequest env path authorization =
     (if matcher path then middleware env authorization else Next)"


subsection \<open>Submitting a PDF\<close>

definition submitRequest :: "string \<Rightarrow> File \<Rightarrow> Request" where
  "submitRequest url file = \<lparr>req_url = url, req_verb = ''POST'', req_form = [(''pdf_file'', file)]\<rparr>"

text \<open>The string \<^verbatim>\<open>insights\<close> member of a response body that is a JSON object
  (\<open>None\<close> when the body is no object or has no such member); \<open>hasInsights response x\<close>:
  the body is an object whose \<^verbatim>\<open>insights\<close> member is the string \<open>x\<close>.\<close>

definition insightsMember :: "Response \<Rightarrow> string option" where
  "insightsMember response =
     (case json_body response of
        Inr (JObj members) \<Rightarrow>
          (case map_of (rev members) ''insights'' of Some (JStr x) \<Rightarrow> Some x | _ \<Rightarrow> None)
      | _ \<Rightarrow> None)"

definition hasInsights :: "Response \<Rightarrow> string \<Rightarrow> bool" where
  "hasInsights response x = (insightsMember response = Some x)"

text \<open>
  The causes of a failing run: the backend URL is not configured, the request fails,
  the status is not 2xx, a JSON response has no string \<^verbatim>\<open>insights\<close> (or does not
  parse), or a response that is not JSON has an empty body.
\<close>

definition failingResponse :: "Response \<Rightarrow> bool" where
  "failingResponse response =
     (\<not> ok response \<or>
      (isJsonContentType (contentType response) \<and> insightsMember response = None) \<or>
      (\<not> isJsonContentType (contentType response) \<and> text_body response = []))"

definition failingRun :: "Browser \<Rightarrow> File \<Rightarrow> bool" where
  "failingRun b file =
     (case backendApiUrl b of
        None \<Rightarrow> True
      | Some url \<Rightarrow>
          (case fetch b (submitRequest url file) of
             Rejected m \<Rightarrow> True
           | Responded response \<Rightarrow> failingResponse response))"


text \<open>
  The report \<open>x\<close> is stored and shown: the pane renders it as markdown with the
  text-size buttons (each active unless the size is at its bound), the save button,
  and the test-content loader when testing is enabled.
\<close>

definition reportShown :: "Browser \<Rightarrow> int \<Rightarrow> Client \<Rightarrow> string \<Rightarrow> bool" where
  "reportShown b textSize c x =
     (insights (api c) = Some x \<and>
      insightsPane b textSize c =
        \<lparr>textSizeButtons = True, decreaseEnabled = (14 < textSize),
         increaseEnabled = (textSize < 24), testLoaderButton = isTestingEnabled b,
         saveButton = True, renderedMarkdown = Some x, emptyPlaceholder = False\<rparr>)"


text \<open>
  A file the client does not accept: its MIME type is not \<^verbatim>\<open>application/pdf\<close> or it
  exceeds the size ceiling. A drop to reject: more than one file, or one such file.
\<close>

definition badFile :: "File \<Rightarrow> bool" where
  "badFile f = (file_type f \<noteq> ''application/pdf'' \<or> file_size f > MAX_FILE_SIZE)"

definition rejectedDrop :: "File list \<Rightarrow> bool" where
  "rejectedDrop files = (length files > 1 \<or> (case files of [f] \<Rightarrow> badFile f | _ \<Rightarrow> False))"

text \<open>The requests that submitting the form sends.\<close>

definition submitted :: "Browser \<Rightarrow> Client \<Rightarrow> Request list" where
  "submitted b c = drop (length (sent c)) (sent (handleSubmit b c))"

subsection \<open>Example states\<close>

definition scrolled_first_page :: PdfPane where
  "scrolled_first_page =
     \<lparr>pdfState = initialPdfState\<lparr>pdfUrl := Some ''data:application/pdf;base64,AAAA'',
                    numPages := Some 5, fileName := Some ''paper.pdf''\<rparr>,
      scrollTop = Some 120\<rparr>"


text \<open>
  A server protected with the pair \<^verbatim>\<open>review\<close>/\<^verbatim>\<open>review\<close>. \<open>demoDecode\<close> agrees with
  base64 decoding on the credentials used below.
\<close>

definition demoDecode :: "string \<Rightarrow> string" where
  "demoDecode s =
     (if s = ''cmV2aWV3OnJldmlldw=='' then ''review:review''
      else if s = ''cmV2aWV3Ondyb25n'' then ''review:wrong''
      else if s = ''cmV2aWV3'' then ''review''
      else [])"

definition demoServer :: ServerEnv where
  "demoServer =
     \<lparr>ENABLE_PASSWORD_PROTECTION = Some ''true'', PASSWORD = Some ''review'',
      USERNAME = Some ''review'', decodeBase64Ascii = demoDecode\<rparr>"


text \<open>
  A browser whose backend is configured, with testing and preloading enabled; its
  network is the argument. A PDF file of 1 kB, and the request that submits it.
\<close>

definition demoBrowser :: "(Request \<Rightarrow> FetchResult) \<Rightarrow> Browser" where
  "demoBrowser network =
     \<lparr>fetch = network,
      pathname = (\<lambda>u. if u = ''https://example.org/papers/attention.pdf''
                       then Some ''/papers/attention.pdf'' else None),
      now = 1700000000000,
      readAsDataURL = (\<lambda>f. ReadLoaded (''data:'' @ file_type f @ '';base64,'' @ file_bytes f)),
      NEXT_PUBLIC_BACKEND_BASE_URL = Some ''http://localhost:8000'',
      NEXT_PUBLIC_ENABLE_TESTING = Some ''true'',
      NEXT_PUBLIC_ENABLE_PRELOAD = Some ''true''\<rparr>"

definition paperPdf :: File where
  "paperPdf = \<lparr>file_name = ''paper.pdf'', file_type = ''application/pdf'', file_size = 1024,
     file_bytes = ''JVBERi0xLjQ=''\<rparr>"

definition demoResponse :: Response where
  "demoResponse = \<lparr>status = 200, statusText = ''OK'', contentType = Some ''application/json'',
     json_body = Inr (JObj [(''insights'', JStr ''# Report'')]), text_body = [],
     blob_body = \<lparr>blob_size = 0, blob_bytes = []\<rparr>\<rparr>"

definition initialUploadState :: UploadState where
  "initialUploadState =
     \<lparr>isUrlMode = False, isPreloadMode = False, pdfUrlInputValue = [], isUrlLoading = False,
      urlError = None, isDraggingOver = False, pdfFile = None, pdfFileId = 0,
      pdfFileError = None\<rparr>"

definition initialClient :: Client where
  "initialClient =
     \<lparr>uiError = None,
      preload = \<lparr>selectedPaper = None, isPreloadLoading = False, preloadedPapers = []\<rparr>,
      upload = initialUploadState,
      api = \<lparr>insights = None, isLoading = False\<rparr>,
      pdf = initialPdfState, dropZoneDragging = False, sent = []\<rparr>"


text \<open>A backend that answers with an empty report, one whose answer is a server
  error, and a network that is down.\<close>

definition emptyReportResponse :: Response where
  "emptyReportResponse = demoResponse\<lparr>json_body := Inr (JObj [(''insights'', JStr [])])\<rparr>"

definition emptyReportBackend :: "Request \<Rightarrow> FetchResult" where
  "emptyReportBackend request = Responded emptyReportResponse"

definition failingBackend :: "Request \<Rightarrow> FetchResult" where
  "failingBackend request =
     Responded (demoResponse\<lparr>status := 500, statusText := ''Internal Server Error'',
                  json_body := Inr (JObj [(''detail'', JStr ''OCR request timed out'')])\<rparr>)"

definition emptyBodyResponse :: Response where
  "emptyBodyResponse = demoResponse\<lparr>contentType := Some ''text/markdown'',
     json_body := Inl ''Unexpected end of JSON input'', text_body := []\<rparr>"

definition emptyBodyBackend :: "Request \<Rightarrow> FetchResult" where
  "emptyBodyBackend request = Responded emptyBodyResponse"

definition offline :: "Request \<Rightarrow> FetchResult" where
  "offline request = Rejected ''Failed to fetch''"

definition reportBackend :: "Request \<Rightarrow> FetchResult" where
  "reportBackend request = Responded demoResponse"

definition markdownBackend :: "Request \<Rightarrow> FetchResult" where
  "markdownBackend request =
     Responded (demoResponse\<lparr>contentType := Some ''text/markdown; charset=utf-8'',
                  json_body := Inl ''Unexpected token # in JSON at position 0'',
                  text_body := ''# Report''\<rparr>)"


text \<open>A client with a PDF loaded in file mode; the same client while an analysis is
  running; a second PDF and a text file.\<close>

definition loadedClient :: Client where
  "loadedClient =
     initialClient\<lparr>upload := initialUploadState\<lparr>pdfFile := Some [paperPdf], pdfFileId := 1\<rparr>,
       pdf := initialPdfState\<lparr>fileName := Some ''paper.pdf'',
                pdfUrl := Some ''data:application/pdf;base64,JVBERi0xLjQ=''\<rparr>\<rparr>"

definition busyClient :: Client where
  "busyClient = loadedClient\<lparr>api := \<lparr>insights = None, isLoading = True\<rparr>\<rparr>"

definition otherPdf :: File where
  "otherPdf = paperPdf\<lparr>file_name := ''other.pdf''\<rparr>"

definition notesTxt :: File where
  "notesTxt = \<lparr>file_name = ''notes.txt'', file_type = ''text/plain'', file_size = 12,
     file_bytes = ''aGVsbG8gd29ybGQh''\<rparr>"


text \<open>A client whose form holds a text file, as after choosing it in the file
  picker.\<close>

definition pickedTextClient :: Client where
  "pickedTextClient =
     initialClient\<lparr>upload := initialUploadState\<lparr>pdfFile := Some [notesTxt], pdfFileId := 1\<rparr>\<rparr>"


text \<open>
  A server that answers every request with a PDF of 1 kB, and two clients in URL mode:
  one with an absolute URL in the input, one with the path of a file the client itself
  serves.
\<close>

definition pdfResponse :: Response where
  "pdfResponse = \<lparr>status = 200, statusText = ''OK'', contentType = Some ''application/pdf'',
     json_body = Inl ''Unexpected token % in JSON at position 0'', text_body = ''%PDF-1.4'',
     blob_body = \<lparr>blob_size = 1024, blob_bytes = ''JVBERi0xLjQ=''\<rparr>\<rparr>"

definition pdfServer :: "Request \<Rightarrow> FetchResult" where
  "pdfServer request = Responded pdfResponse"

definition notFoundResponse :: Response where
  "notFoundResponse = pdfResponse\<lparr>status := 404, statusText := ''Not Found''\<rparr>"

definition notFoundServer :: "Request \<Rightarrow> FetchResult" where
  "notFoundServer request = Responded notFoundResponse"

definition urlClient :: "string \<Rightarrow> Client" where
  "urlClient url =
     initialClient\<lparr>upload := initialUploadState\<lparr>isUrlMode := True, pdfUrlInputValue := url\<rparr>\<rparr>"

definition downloadedPdf :: File where
  "downloadedPdf = newFile (blob_body pdfResponse) ''attention.pdf'' ''application/pdf''"





section \<open>Properties\<close>

subsection \<open>PDF preview state\<close>

lemma updatePdfState_zoom:
  "updatePdfState (no_updates\<lparr>set_pdfZoom := Some z\<rparr>) s = s\<lparr>pdfZoom := z\<rparr>"
  by (simp add: updatePdfState_def no_updates_def)

lemma updatePdfState_page:
  "updatePdfState (no_updates\<lparr>set_currentPage := Some k\<rparr>) s = s\<lparr>currentPage := k\<rparr>"
  by (simp add: updatePdfState_def no_updates_def)

lemma updatePdfState_scroll:
  "updatePdfState (no_updates\<lparr>set_scrollPosition := Some t\<rparr>) s = s\<lparr>scrollPosition := t\<rparr>"
  by (simp add: updatePdfState_def no_updates_def)

text \<open>
  C10. On a successful document load the page count is stored, and the current page
  becomes 1 when no document was loaded before (\<open>numPages\<close> was \<open>null\<close>), and
  \<open>min currentPage numPages\<close> on a reload; no other field changes.
\<close>

theorem onDocumentLoadSuccess_page:
  "onDocumentLoadSuccess n s =
     s\<lparr>numPages := Some n,
       currentPage := (case numPages s of None \<Rightarrow> 1 | Some old \<Rightarrow> min (currentPage s) n)\<rparr>"
  by (cases "numPages s") (simp_all add: onDocumentLoadSuccess_def updatePdfState_def no_updates_def)

text \<open>
  C8. The zoom handlers change only \<open>pdfZoom\<close>: zooming in gives
  \<open>min (z + 0.1) 2.0\<close>, zooming out \<open>max (z - 0.1) 0.1\<close>, setting the zoom to \<open>v\<close>
  gives \<open>max 0.1 (min 2.0 v)\<close>. A set zoom always lies in \<open>[0.1, 2.0]\<close>; a zoom
  inside the interval stays inside it under both steps; and a request beyond a bound
  lands on that bound.
\<close>

theorem zoom_clamped:
  "handleZoomIn s = s\<lparr>pdfZoom := min (pdfZoom s + 0.1) 2.0\<rparr> \<and>
   handleZoomOut s = s\<lparr>pdfZoom := max (pdfZoom s - 0.1) 0.1\<rparr> \<and>
   handleSetZoom v s = s\<lparr>pdfZoom := max 0.1 (min 2.0 v)\<rparr> \<and>
   0.1 \<le> pdfZoom (handleSetZoom v s) \<and> pdfZoom (handleSetZoom v s) \<le> 2.0 \<and>
   pdfZoom (handleZoomIn s) \<le> 2.0 \<and> 0.1 \<le> pdfZoom (handleZoomOut s) \<and>
   (0.1 \<le> pdfZoom s \<and> pdfZoom s \<le> 2.0 \<longrightarrow>
      0.1 \<le> pdfZoom (handleZoomIn s) \<and> pdfZoom (handleZoomOut s) \<le> 2.0) \<and>
   (2.0 \<le> pdfZoom s + 0.1 \<longrightarrow> pdfZoom (handleZoomIn s) = 2.0) \<and>
   (pdfZoom s - 0.1 \<le> 0.1 \<longrightarrow> pdfZoom (handleZoomOut s) = 0.1) \<and>
   (2.0 \<le> v \<longrightarrow> pdfZoom (handleSetZoom v s) = 2.0) \<and>
   (v \<le> 0.1 \<longrightarrow> pdfZoom (handleSetZoom v s) = 0.1)"
proof -
  have zin: "handleZoomIn s = s\<lparr>pdfZoom := min (pdfZoom s + 0.1) 2.0\<rparr>"
    by (simp add: handleZoomIn_def updatePdfState_zoom ZOOM_STEP_def MAX_ZOOM_def)
  have zout: "handleZoomOut s = s\<lparr>pdfZoom := max (pdfZoom s - 0.1) 0.1\<rparr>"
    by (simp add: handleZoomOut_def updatePdfState_zoom ZOOM_STEP_def MIN_ZOOM_def)
  have zset: "handleSetZoom v s = s\<lparr>pdfZoom := max 0.1 (min 2.0 v)\<rparr>"
    by (simp add: handleSetZoom_def updatePdfState_zoom MAX_ZOOM_def MIN_ZOOM_def)
  show ?thesis
    unfolding zin zout zset by auto
qed

theorem zoom_clamped_witness:
  "pdfZoom (handleZoomIn (initialPdfState\<lparr>pdfZoom := 2.0\<rparr>)) = 2.0 \<and>
   pdfZoom (handleZoomOut (initialPdfState\<lparr>pdfZoom := 2.0\<rparr>)) = 1.9 \<and>
   pdfZoom (handleSetZoom 3 (initialPdfState\<lparr>pdfZoom := 2.0\<rparr>)) = 2.0 \<and>
   pdfZoom (handleZoomOut (initialPdfState\<lparr>pdfZoom := 0.1\<rparr>)) = 0.1 \<and>
   pdfZoom (handleZoomIn (initialPdfState\<lparr>pdfZoom := 0.1\<rparr>)) = 0.2 \<and>
   pdfZoom (handleSetZoom 0 (initialPdfState\<lparr>pdfZoom := 0.1\<rparr>)) = 0.1"
  using zoom_clamped [of "initialPdfState\<lparr>pdfZoom := 2.0\<rparr>" 3]
        zoom_clamped [of "initialPdfState\<lparr>pdfZoom := 0.1\<rparr>" 0]
  by (simp add: initialPdfState_def)

text \<open>
  C9, as stated, fails: \<open>goToPrevPage\<close> first saves the scroll area's \<open>scrollTop\<close> into
  \<open>scrollPosition\<close>. On page 1 of 5, with the pane scrolled to 120 and a stored
  scroll position of 0, the call leaves the page at 1 and changes \<open>scrollPosition\<close>.
\<close>

theorem goToPrevPage_changes_scrollPosition:
  "currentPage (pdfState scrolled_first_page) = 1 \<and>
   numPages (pdfState scrolled_first_page) = Some 5 \<and>
   scrollPosition (pdfState scrolled_first_page) = 0 \<and>
   scrollPosition (pdfState (goToPrevPage scrolled_first_page)) = 120 \<and>
   pdfState (goToPrevPage scrolled_first_page) \<noteq> pdfState scrolled_first_page"
proof -
  have "scrollPosition (pdfState (goToPrevPage scrolled_first_page)) = 120"
    by (simp add: goToPrevPage_def saveScrollPosition_def restoreScrollPosition_def
        scrolled_first_page_def initialPdfState_def updatePdfState_def no_updates_def Let_def)
  moreover have "scrollPosition (pdfState scrolled_first_page) = 0"
    by (simp add: scrolled_first_page_def initialPdfState_def)
  moreover have "currentPage (pdfState scrolled_first_page) = 1"
    by (simp add: scrolled_first_page_def initialPdfState_def)
  moreover have "numPages (pdfState scrolled_first_page) = Some 5"
    by (simp add: scrolled_first_page_def initialPdfState_def)
  ultimately show ?thesis by auto
qed

text \<open>
  C9, amended. With the current page on 1, \<open>goToPrevPage\<close>, and with the current page
  on the last page of a document of at least one page, \<open>goToNextPage\<close>, keep
  \<open>currentPage\<close> and every other field of the PDF state except \<open>scrollPosition\<close>,
  which becomes the scroll area's \<open>scrollTop\<close> when the area is mounted (and is kept
  when it is not).
\<close>

theorem page_navigation_clamped:
  "(currentPage (pdfState p) = 1 \<longrightarrow>
      pdfState (goToPrevPage p) =
        (pdfState p)\<lparr>scrollPosition :=
           (case scrollTop p of None \<Rightarrow> scrollPosition (pdfState p) | Some t \<Rightarrow> t)\<rparr>) \<and>
   (numPages (pdfState p) = Some n \<and> currentPage (pdfState p) = n \<and> 1 \<le> n \<longrightarrow>
      pdfState (goToNextPage p) =
        (pdfState p)\<lparr>scrollPosition :=
           (case scrollTop p of None \<Rightarrow> scrollPosition (pdfState p) | Some t \<Rightarrow> t)\<rparr>)"
proof (intro conjI impI)
  assume first: "currentPage (pdfState p) = 1"
  show "pdfState (goToPrevPage p) =
        (pdfState p)\<lparr>scrollPosition :=
           (case scrollTop p of None \<Rightarrow> scrollPosition (pdfState p) | Some t \<Rightarrow> t)\<rparr>"
    using first
    by (cases "scrollTop p")
       (simp_all add: goToPrevPage_def saveScrollPosition_def restoreScrollPosition_def
          updatePdfState_page updatePdfState_scroll Let_def)
next
  assume last: "numPages (pdfState p) = Some n \<and> currentPage (pdfState p) = n \<and> 1 \<le> n"
  then have "min (currentPage (pdfState p) + 1) (numPages_or_1 (numPages (pdfState p))) =
             currentPage (pdfState p)"
    by (auto simp: numPages_or_1_def)
  then show "pdfState (goToNextPage p) =
        (pdfState p)\<lparr>scrollPosition :=
           (case scrollTop p of None \<Rightarrow> scrollPosition (pdfState p) | Some t \<Rightarrow> t)\<rparr>"
    by (cases "scrollTop p")
       (simp_all add: goToNextPage_def saveScrollPosition_def restoreScrollPosition_def
          updatePdfState_page updatePdfState_scroll Let_def)
qed

theorem page_navigation_clamped_witness:
  "pdfState (goToPrevPage scrolled_first_page) =
     (pdfState scrolled_first_page)\<lparr>scrollPosition := 120\<rparr> \<and>
   pdfState (goToNextPage (scrolled_first_page\<lparr>pdfState :=
       (pdfState scrolled_first_page)\<lparr>currentPage := 5\<rparr>\<rparr>)) =
     (pdfState scrolled_first_page)\<lparr>currentPage := 5, scrollPosition := 120\<rparr>"
  using page_navigation_clamped [of scrolled_first_page 5]
        page_navigation_clamped [of "scrolled_first_page\<lparr>pdfState :=
            (pdfState scrolled_first_page)\<lparr>currentPage := 5\<rparr>\<rparr>" 5]
  by (simp add: scrolled_first_page_def initialPdfState_def)

subsection \<open>The basic-auth gate\<close>

lemma startsWith_append [simp]: "startsWith (p @ s) p"
  by (induction p) auto

lemma split_no_separator: "d \<notin> set s \<Longrightarrow> split d s = [s]"
  by (induction s) auto

lemma split_first_separator: "d \<notin> set a \<Longrightarrow> split d (a @ d # rest) = a # split d rest"
  by (induction a) (auto split: list.splits)

lemma split_two_fields:
  "d \<notin> set a \<Longrightarrow> d \<notin> set c \<Longrightarrow> split d (a @ d # c) = [a, c]"
  by (simp add: split_first_separator split_no_separator)

lemma middleware_disabled:
  "ENABLE_PASSWORD_PROTECTION env \<noteq> Some ''true'' \<Longrightarrow> middleware env auth = Next"
  by (simp add: middleware_def)

lemma middleware_no_basic_header:
  assumes "ENABLE_PASSWORD_PROTECTION env = Some ''true''"
    and "USERNAME env = Some u" and "PASSWORD env = Some p" and "u \<noteq> []" and "p \<noteq> []"
    and "auth = None \<or> (\<exists>h. auth = Some h \<and> \<not> startsWith h ''Basic '')"
  shows "middleware env auth = Reply 401 ''Authentication required'' basicChallenge"
  using assms by (auto simp: middleware_def Let_def)

lemma middleware_basic_header:
  assumes "ENABLE_PASSWORD_PROTECTION env = Some ''true''"
    and "USERNAME env = Some u" and "PASSWORD env = Some p" and "u \<noteq> []" and "p \<noteq> []"
  shows "middleware env (Some (''Basic '' @ b64)) =
           (if Some (hd (split (CHR '':'') (decodeBase64Ascii env b64))) \<noteq> Some u \<or>
               (if length (split (CHR '':'') (decodeBase64Ascii env b64)) > 1
                then Some (split (CHR '':'') (decodeBase64Ascii env b64) ! 1) else None) \<noteq> Some p
            then Reply 401 ''Invalid credentials'' basicChallenge
            else Next)"
  unfolding middleware_def Let_def assms(1-3)
  using assms(4,5) by simp

lemma middleware_credentials:
  assumes "ENABLE_PASSWORD_PROTECTION env = Some ''true''"
    and "USERNAME env = Some u" and "PASSWORD env = Some p" and "u \<noteq> []" and "p \<noteq> []"
    and "decodeBase64Ascii env b64 = user @ '':'' @ pass"
    and "CHR '':'' \<notin> set user" and "CHR '':'' \<notin> set pass"
  shows "middleware env (Some (''Basic '' @ b64)) =
           (if user = u \<and> pass = p then Next
            else Reply 401 ''Invalid credentials'' basicChallenge)"
proof -
  have fields: "split (CHR '':'') (decodeBase64Ascii env b64) = [user, pass]"
    using split_two_fields [OF assms(7) assms(8)] assms(6) by simp
  show ?thesis
    unfolding middleware_basic_header [OF assms(1-5)] fields by auto
qed

lemma middleware_no_password:
  assumes "ENABLE_PASSWORD_PROTECTION env = Some ''true''"
    and "USERNAME env = Some u" and "PASSWORD env = Some p" and "u \<noteq> []" and "p \<noteq> []"
    and "CHR '':'' \<notin> set (decodeBase64Ascii env b64)"
  shows "middleware env (Some (''Basic '' @ b64)) =
           Reply 401 ''Invalid credentials'' basicChallenge"
proof -
  have fields: "split (CHR '':'') (decodeBase64Ascii env b64) = [decodeBase64Ascii env b64]"
    using assms(6) by (rule split_no_separator)
  show ?thesis
    unfolding middleware_basic_header [OF assms(1-5)] fields by simp
qed

text \<open>
  C6, as stated, fails: the gate does not guard every request. With protection
  configured, a request for a path that \<^verbatim>\<open>config.matcher\<close> excludes (here a static
  asset of the client) passes through without an \<^verbatim>\<open>Authorization\<close> header, while
  the same request for the page itself is challenged.
\<close>

theorem unmatched_path_not_challenged:
  "handleRequest demoServer ''/_next/static/chunks/main.js'' None = Next \<and>
   handleRequest demoServer ''/'' None = Reply 401 ''Authentication required'' basicChallenge"
  by (simp add: handleRequest_def matcher_def matcherExcludes_def middleware_def demoServer_def
      imageExtensions_def endsWith_def isLineTerminator_def)

text \<open>
  C6, amended. Requests for paths that \<^verbatim>\<open>config.matcher\<close> excludes pass through, and
  so does every request when protection is not enabled. When protection is enabled
  with a non-empty username and password, a request for a matched path is answered
  with status 401 and a \<^verbatim>\<open>WWW-Authenticate: Basic\<close> header when it has no
  \<^verbatim>\<open>Authorization\<close> header or one that does not start with \<^verbatim>\<open>Basic\<close>, or when the
  decoded credentials have no colon; and when the decoded credentials are
  \<^verbatim>\<open>user:pass\<close> with no further colon, the request passes through exactly when
  \<open>user\<close> and \<open>pass\<close> are the configured username and password, and is answered with
  401 and the challenge otherwise.
\<close>

theorem basic_auth_gate:
  "(ENABLE_PASSWORD_PROTECTION env \<noteq> Some ''true'' \<longrightarrow> handleRequest env path auth = Next) \<and>
   (\<not> matcher path \<longrightarrow> handleRequest env path auth = Next) \<and>
   (\<exists>realm. basicChallenge = [(''WWW-Authenticate'', ''Basic '' @ realm)]) \<and>
   (matcher path \<and> ENABLE_PASSWORD_PROTECTION env = Some ''true'' \<and>
    USERNAME env = Some u \<and> PASSWORD env = Some p \<and> u \<noteq> [] \<and> p \<noteq> [] \<longrightarrow>
      ((auth = None \<or> (\<exists>h. auth = Some h \<and> \<not> startsWith h ''Basic '')) \<longrightarrow>
         handleRequest env path auth = Reply 401 ''Authentication required'' basicChallenge) \<and>
      (CHR '':'' \<notin> set (decodeBase64Ascii env b64) \<longrightarrow>
         handleRequest env path (Some (''Basic '' @ b64)) =
           Reply 401 ''Invalid credentials'' basicChallenge) \<and>
      (decodeBase64Ascii env b64 = user @ '':'' @ pass \<and>
       CHR '':'' \<notin> set user \<and> CHR '':'' \<notin> set pass \<longrightarrow>
         handleRequest env path (Some (''Basic '' @ b64)) =
           (if user = u \<and> pass = p then Next
            else Reply 401 ''Invalid credentials'' basicChallenge)))"
proof (intro conjI impI)
  assume "ENABLE_PASSWORD_PROTECTION env \<noteq> Some ''true''"
  then show "handleRequest env path auth = Next"
    by (simp add: handleRequest_def middleware_disabled)
next
  assume "\<not> matcher path"
  then show "handleRequest env path auth = Next"
    by (simp add: handleRequest_def)
next
  show "\<exists>realm. basicChallenge = [(''WWW-Authenticate'', ''Basic '' @ realm)]"
    by (simp add: basicChallenge_def)
next
  assume cfg: "matcher path \<and> ENABLE_PASSWORD_PROTECTION env = Some ''true'' \<and>
    USERNAME env = Some u \<and> PASSWORD env = Some p \<and> u \<noteq> [] \<and> p \<noteq> []"
  assume "auth = None \<or> (\<exists>h. auth = Some h \<and> \<not> startsWith h ''Basic '')"
  with cfg show "handleRequest env path auth =
      Reply 401 ''Authentication required'' basicChallenge"
    by (simp add: handleRequest_def middleware_no_basic_header)
next
  assume cfg: "matcher path \<and> ENABLE_PASSWORD_PROTECTION env = Some ''true'' \<and>
    USERNAME env = Some u \<and> PASSWORD env = Some p \<and> u \<noteq> [] \<and> p \<noteq> []"
  assume "CHR '':'' \<notin> set (decodeBase64Ascii env b64)"
  with cfg show "handleRequest env path (Some (''Basic '' @ b64)) =
      Reply 401 ''Invalid credentials'' basicChallenge"
    using middleware_no_password [of env u p b64] by (simp add: handleRequest_def)
next
  assume cfg: "matcher path \<and> ENABLE_PASSWORD_PROTECTION env = Some ''true'' \<and>
    USERNAME env = Some u \<and> PASSWORD env = Some p \<and> u \<noteq> [] \<and> p \<noteq> []"
  assume "decodeBase64Ascii env b64 = user @ '':'' @ pass \<and>
         CHR '':'' \<notin> set user \<and> CHR '':'' \<notin> set pass"
  with cfg show "handleRequest env path (Some (''Basic '' @ b64)) =
             (if user = u \<and> pass = p then Next
              else Reply 401 ''Invalid credentials'' basicChallenge)"
    using middleware_credentials [of env u p b64 user pass] by (simp add: handleRequest_def)
qed

theorem basic_auth_gate_witness:
  "handleRequest demoServer ''/'' (Some ''Basic cmV2aWV3OnJldmlldw=='') = Next \<and>
   handleRequest demoServer ''/'' (Some ''Basic cmV2aWV3Ondyb25n'') =
     Reply 401 ''Invalid credentials'' basicChallenge \<and>
   handleRequest demoServer ''/'' (Some ''Basic cmV2aWV3'') =
     Reply 401 ''Invalid credentials'' basicChallenge \<and>
   handleRequest demoServer ''/'' (Some ''Bearer abc'') =
     Reply 401 ''Authentication required'' basicChallenge \<and>
   handleRequest demoServer ''/data/preload/papers.json'' None =
     Reply 401 ''Authentication required'' basicChallenge \<and>
   handleRequest demoServer ''/logo.png'' None = Next \<and>
   handleRequest (demoServer\<lparr>ENABLE_PASSWORD_PROTECTION := None\<rparr>) ''/'' None = Next"
proof -
  have m1: "matcher ''/''"
    by (simp add: matcher_def matcherExcludes_def imageExtensions_def endsWith_def)
  have m2: "matcher ''/data/preload/papers.json''"
    by (simp add: matcher_def matcherExcludes_def imageExtensions_def endsWith_def)
  have m3: "\<not> matcher ''/logo.png''"
    by (simp add: matcher_def matcherExcludes_def imageExtensions_def endsWith_def
        isLineTerminator_def)
  have cfg: "ENABLE_PASSWORD_PROTECTION demoServer = Some ''true'' \<and>
      USERNAME demoServer = Some ''review'' \<and> PASSWORD demoServer = Some ''review''"
    by (simp add: demoServer_def)
  have d1: "decodeBase64Ascii demoServer ''cmV2aWV3OnJldmlldw=='' = ''review'' @ '':'' @ ''review''"
    by (simp add: demoServer_def demoDecode_def)
  have d2: "decodeBase64Ascii demoServer ''cmV2aWV3Ondyb25n'' = ''review'' @ '':'' @ ''wrong''"
    by (simp add: demoServer_def demoDecode_def)
  have d3: "CHR '':'' \<notin> set (decodeBase64Ascii demoServer ''cmV2aWV3'')"
    by (simp add: demoServer_def demoDecode_def)
  have a: "handleRequest demoServer ''/'' (Some ''Basic cmV2aWV3OnJldmlldw=='') = Next"
    using basic_auth_gate [where env = demoServer and path = "''/''" and u = "''review''"
        and p = "''review''" and ?b64.0 = "''cmV2aWV3OnJldmlldw==''" and user = "''review''"
        and pass = "''review''"] m1 cfg d1
    by simp
  have b: "handleRequest demoServer ''/'' (Some ''Basic cmV2aWV3Ondyb25n'') =
      Reply 401 ''Invalid credentials'' basicChallenge"
    using basic_auth_gate [where env = demoServer and path = "''/''" and u = "''review''"
        and p = "''review''" and ?b64.0 = "''cmV2aWV3Ondyb25n''" and user = "''review''"
        and pass = "''wrong''"] m1 cfg d2
    by simp
  have c: "handleRequest demoServer ''/'' (Some ''Basic cmV2aWV3'') =
      Reply 401 ''Invalid credentials'' basicChallenge"
    using basic_auth_gate [where env = demoServer and path = "''/''" and u = "''review''"
        and p = "''review''" and ?b64.0 = "''cmV2aWV3''"] m1 cfg d3
    by simp
  have d: "handleRequest demoServer ''/'' (Some ''Bearer abc'') =
      Reply 401 ''Authentication required'' basicChallenge"
    using basic_auth_gate [where env = demoServer and path = "''/''" and u = "''review''"
        and p = "''review''" and auth = "Some ''Bearer abc''"] m1 cfg
    by simp
  have e: "handleRequest demoServer ''/data/preload/papers.json'' None =
      Reply 401 ''Authentication required'' basicChallenge"
    using basic_auth_gate [where env = demoServer and path = "''/data/preload/papers.json''"
        and u = "''review''" and p = "''review''" and auth = None] m2 cfg
    by simp
  have f: "handleRequest demoServer ''/logo.png'' None = Next"
    using basic_auth_gate [where env = demoServer and path = "''/logo.png''" and auth = None] m3
    by simp
  have g: "handleRequest (demoServer\<lparr>ENABLE_PASSWORD_PROTECTION := None\<rparr>) ''/'' None = Next"
    using basic_auth_gate [where env = "demoServer\<lparr>ENABLE_PASSWORD_PROTECTION := None\<rparr>"
        and path = "''/''" and auth = None]
    by simp
  from a b c d e f g show ?thesis by simp
qed


subsection \<open>Submitting a PDF\<close>

lemma friendlyMessage_nonempty: "friendlyMessage thrown \<noteq> []"
  by (simp add: friendlyMessage_def Let_def)

lemma insights_member:
  "(case (if truthy j then getProp j ''insights'' else None) of
      Some (JStr t) \<Rightarrow> Inr t
    | _ \<Rightarrow> Inl e) = (Inr x :: string + string) \<longleftrightarrow>
   (case j of
      JObj members \<Rightarrow>
        (case map_of (rev members) ''insights'' of Some (JStr x) \<Rightarrow> Some x | _ \<Rightarrow> None)
    | _ \<Rightarrow> None) = Some x"
  by (cases j) (auto simp: getProp_def split: option.splits json.splits)

lemma readInsights_ok_json:
  assumes "ok response" and "isJsonContentType (contentType response)"
  shows "readInsights (Responded response) = Inr x \<longleftrightarrow> hasInsights response x"
proof (cases "json_body response")
  case (Inl m)
  then show ?thesis
    using assms by (simp add: readInsights_def hasInsights_def insightsMember_def)
next
  case (Inr j)
  then show ?thesis
    using assms insights_member [where j = j and x = x]
    by (simp add: readInsights_def hasInsights_def insightsMember_def)
qed

lemma readInsights_ok_text:
  assumes "ok response" and "\<not> isJsonContentType (contentType response)"
  shows "readInsights (Responded response) =
           (if text_body response \<noteq> [] then Inr (text_body response)
            else Inl ''Empty response from API.'')"
  using assms by (simp add: readInsights_def Let_def)

lemma readInsights_failing:
  "failingResponse response \<Longrightarrow> \<exists>m. readInsights (Responded response) = Inl m"
proof -
  assume f: "failingResponse response"
  show ?thesis
  proof (cases "ok response")
    case False
    then show ?thesis by (simp add: readInsights_def)
  next
    case True
    show ?thesis
    proof (cases "isJsonContentType (contentType response)")
      case isJson: True
      from f True isJson have none: "\<forall>x. \<not> hasInsights response x"
        by (simp add: failingResponse_def hasInsights_def)
      show ?thesis
      proof (cases "readInsights (Responded response)")
        case (Inl m)
        then show ?thesis by simp
      next
        case (Inr x)
        with readInsights_ok_json [OF True isJson, where x = x] none show ?thesis by simp
      qed
    next
      case isText: False
      from f True isText have "text_body response = []"
        by (simp add: failingResponse_def)
      with readInsights_ok_text [OF True isText] show ?thesis by simp
    qed
  qed
qed

lemma submitPdf_unconfigured:
  "backendApiUrl b = None \<Longrightarrow>
   submitPdf b file s =
     \<lparr>state = s\<lparr>isLoading := False\<rparr>,
      calls = [ApiOnError ''Backend API URL is not configured. Please set NEXT_PUBLIC_BACKEND_BASE_URL in your .env.local file.''],
      requests = []\<rparr>"
  by (simp add: submitPdf_def)

lemma submitPdf_thrown:
  "backendApiUrl b = Some url \<Longrightarrow> readInsights (fetch b (submitRequest url file)) = Inl m \<Longrightarrow>
   submitPdf b file s =
     \<lparr>state = s\<lparr>isLoading := False\<rparr>, calls = [ApiOnError (friendlyMessage m)],
      requests = [submitRequest url file]\<rparr>"
  by (simp add: submitPdf_def submitRequest_def Let_def)

lemma submitPdf_read:
  "backendApiUrl b = Some url \<Longrightarrow> readInsights (fetch b (submitRequest url file)) = Inr x \<Longrightarrow>
   submitPdf b file s =
     \<lparr>state = s\<lparr>insights := Some x, isLoading := False\<rparr>, calls = [ApiOnSuccess x],
      requests = [submitRequest url file]\<rparr>"
  by (simp add: submitPdf_def submitRequest_def Let_def)

lemma failingRun_thrown:
  assumes "failingRun b file" and "backendApiUrl b = Some url"
  shows "\<exists>m. readInsights (fetch b (submitRequest url file)) = Inl m"
proof (cases "fetch b (submitRequest url file)")
  case (Rejected m)
  then show ?thesis by (simp add: readInsights_def)
next
  case (Responded response)
  with assms have "failingResponse response"
    by (simp add: failingRun_def)
  with Responded show ?thesis
    using readInsights_failing by simp
qed

lemma submitPdf_failing:
  assumes "failingRun b file"
  shows "\<exists>m. m \<noteq> [] \<and>
           submitPdf b file s =
             \<lparr>state = s\<lparr>isLoading := False\<rparr>, calls = [ApiOnError m],
              requests = (case backendApiUrl b of None \<Rightarrow> []
                          | Some url \<Rightarrow> [submitRequest url file])\<rparr>"
proof (cases "backendApiUrl b")
  case None
  then show ?thesis
    using submitPdf_unconfigured [OF None, where s = s] by simp
next
  case (Some url)
  from failingRun_thrown [OF assms Some] obtain m
    where "readInsights (fetch b (submitRequest url file)) = Inl m" ..
  from submitPdf_thrown [OF Some this, where s = s] Some friendlyMessage_nonempty [of m]
  show ?thesis by simp
qed

lemma handleFormSubmit_file:
  "handleFormSubmit b (Some (file # others)) c =
     applyApi (submitPdf b file (api c)) (clearUIError c)"
  by (simp add: handleFormSubmit_def Let_def clearUIError_def)

lemma applyApi_error:
  "applyApi \<lparr>state = s, calls = [ApiOnError m], requests = rs\<rparr> c =
     c\<lparr>api := s, sent := sent c @ rs, uiError := Some m\<rparr>"
  by (simp add: applyApi_def setUIError_def)

lemma applyApi_success:
  "applyApi \<lparr>state = s, calls = [ApiOnSuccess x], requests = rs\<rparr> c =
     c\<lparr>api := s, sent := sent c @ rs, uiError := None\<rparr>"
  by (simp add: applyApi_def clearUIError_def)

lemma renderedMarkdown_insights:
  "insights (api c') = insights (api c) \<Longrightarrow>
   renderedMarkdown (insightsPane b textSize c') = renderedMarkdown (insightsPane b textSize c)"
  by (simp add: insightsPane_def InsightsViewer_def viewerProps_def Let_def)

text \<open>
  C3. A failing run of \<open>submitPdf\<close> (the backend URL is not configured, the request
  fails, the status is not 2xx, a JSON body has no string \<^verbatim>\<open>insights\<close>, or a body
  that is not JSON is empty) calls the error callback exactly once, with a message
  that is not empty, and the success callback never; the stored insights are the ones
  from before the call, at most one request is sent, and the loading flag is false
  afterwards. On the page the message becomes the error shown, and the report pane
  renders what it rendered before.
\<close>

theorem submitPdf_failure_reported:
  assumes "failingRun b file"
  shows "(\<exists>m. m \<noteq> [] \<and> calls (submitPdf b file s) = [ApiOnError m] \<and>
              uiError (handleFormSubmit b (Some (file # others)) c) = Some m) \<and>
         insights (state (submitPdf b file s)) = insights s \<and>
         isLoading (state (submitPdf b file s)) = False \<and>
         length (requests (submitPdf b file s)) \<le> 1 \<and>
         insights (api (handleFormSubmit b (Some (file # others)) c)) = insights (api c) \<and>
         isLoading (api (handleFormSubmit b (Some (file # others)) c)) = False \<and>
         renderedMarkdown (insightsPane b textSize (handleFormSubmit b (Some (file # others)) c)) =
           renderedMarkdown (insightsPane b textSize c)"
proof -
  from submitPdf_failing [OF assms, of s] obtain m where
    m: "m \<noteq> []" and
    run: "submitPdf b file s =
            \<lparr>state = s\<lparr>isLoading := False\<rparr>, calls = [ApiOnError m],
             requests = (case backendApiUrl b of None \<Rightarrow> []
                         | Some url \<Rightarrow> [submitRequest url file])\<rparr>"
    by blast
  from submitPdf_failing [OF assms, of "api c"] obtain m' where
    run': "submitPdf b file (api c) =
            \<lparr>state = (api c)\<lparr>isLoading := False\<rparr>, calls = [ApiOnError m'],
             requests = (case backendApiUrl b of None \<Rightarrow> []
                         | Some url \<Rightarrow> [submitRequest url file])\<rparr>"
    by blast
  have same: "m' = m"
  proof (cases "backendApiUrl b")
    case None
    with run run' show ?thesis
      by (simp add: submitPdf_unconfigured)
  next
    case (Some url)
    from failingRun_thrown [OF assms Some] obtain t
      where "readInsights (fetch b (submitRequest url file)) = Inl t" ..
    with run run' Some show ?thesis
      by (simp add: submitPdf_thrown)
  qed
  have page: "handleFormSubmit b (Some (file # others)) c =
      (clearUIError c)\<lparr>api := (api c)\<lparr>isLoading := False\<rparr>,
         sent := sent (clearUIError c) @
           (case backendApiUrl b of None \<Rightarrow> [] | Some url \<Rightarrow> [submitRequest url file]),
         uiError := Some m\<rparr>"
    by (simp only: handleFormSubmit_file run' applyApi_error same)
  have ins: "insights (api (handleFormSubmit b (Some (file # others)) c)) = insights (api c)"
    by (simp add: page clearUIError_def)
  have len: "length (requests (submitPdf b file s)) \<le> 1"
    by (simp add: run split: option.splits)
  show ?thesis
    using m ins len renderedMarkdown_insights [OF ins]
    by (simp add: run page clearUIError_def)
qed

theorem submitPdf_failure_reported_witness:
  "(\<exists>m. m \<noteq> [] \<and>
      calls (submitPdf (demoBrowser failingBackend) paperPdf \<lparr>insights = Some ''old'', isLoading = True\<rparr>) =
        [ApiOnError m]) \<and>
   insights (state (submitPdf (demoBrowser failingBackend) paperPdf
      \<lparr>insights = Some ''old'', isLoading = True\<rparr>)) = Some ''old'' \<and>
   isLoading (state (submitPdf (demoBrowser offline) paperPdf
      \<lparr>insights = Some ''old'', isLoading = True\<rparr>)) = False \<and>
   insights (api (handleFormSubmit (demoBrowser offline) (Some [paperPdf]) initialClient)) = None"
proof -
  have f1: "failingRun (demoBrowser failingBackend) paperPdf"
    by (simp add: failingRun_def backendApiUrl_def demoBrowser_def failingBackend_def
        failingResponse_def ok_def demoResponse_def)
  have f2: "failingRun (demoBrowser offline) paperPdf"
    by (simp add: failingRun_def backendApiUrl_def demoBrowser_def offline_def)
  show ?thesis
    using submitPdf_failure_reported [OF f1,
            where s = "\<lparr>insights = Some ''old'', isLoading = True\<rparr>" and c = initialClient
              and others = "[]"]
          submitPdf_failure_reported [OF f2,
            where s = "\<lparr>insights = Some ''old'', isLoading = True\<rparr>" and c = initialClient
              and others = "[]"]
    by (auto simp: initialClient_def)
qed

lemma submitPdf_form:
  "\<forall>r \<in> set (requests (submitPdf b file s)).
     req_form r = [(''pdf_file'', file)] \<and> req_verb r = ''POST''"
  by (simp add: submitPdf_def Let_def split: option.splits sum.splits)

lemma reportShown_after_success:
  assumes "backendApiUrl b = Some url"
    and "readInsights (fetch b (submitRequest url file)) = Inr x" and "x \<noteq> []"
  shows "reportShown b textSize (handleFormSubmit b (Some (file # others)) c) x"
proof -
  have page: "handleFormSubmit b (Some (file # others)) c =
      (clearUIError c)\<lparr>api := (api c)\<lparr>insights := Some x, isLoading := False\<rparr>,
         sent := sent (clearUIError c) @ [submitRequest url file], uiError := None\<rparr>"
    by (simp only: handleFormSubmit_file submitPdf_read [OF assms(1) assms(2)] applyApi_success)
  show ?thesis
    using assms(3)
    by (auto simp: page reportShown_def insightsPane_def InsightsViewer_def viewerProps_def
        clearUIError_def Let_def)
qed

text \<open>
  C1, as stated, fails for an empty report. When the backend answers 200 with the JSON
  body \<^verbatim>\<open>{"insights": ""}\<close>, the client stores the empty string, and the pane shows
  neither the text-size buttons nor the save button, and renders no markdown. When it
  answers 200 with a content type that is not JSON and an empty body, the client
  reports an error and stores nothing.
\<close>

theorem empty_report_not_shown:
  "ok emptyReportResponse \<and>
   isJsonContentType (contentType emptyReportResponse) \<and>
   hasInsights emptyReportResponse [] \<and>
   fetch (demoBrowser emptyReportBackend)
     (submitRequest ''http://localhost:8000/api/process-pdf/'' paperPdf) =
     Responded emptyReportResponse \<and>
   insights (api (handleFormSubmit (demoBrowser emptyReportBackend) (Some [paperPdf])
      initialClient)) = Some [] \<and>
   textSizeButtons (insightsPane (demoBrowser emptyReportBackend) 14
      (handleFormSubmit (demoBrowser emptyReportBackend) (Some [paperPdf]) initialClient)) = False \<and>
   saveButton (insightsPane (demoBrowser emptyReportBackend) 14
      (handleFormSubmit (demoBrowser emptyReportBackend) (Some [paperPdf]) initialClient)) = False \<and>
   renderedMarkdown (insightsPane (demoBrowser emptyReportBackend) 14
      (handleFormSubmit (demoBrowser emptyReportBackend) (Some [paperPdf]) initialClient)) = None \<and>
   \<not> reportShown (demoBrowser emptyReportBackend) 14
      (handleFormSubmit (demoBrowser emptyReportBackend) (Some [paperPdf]) initialClient) [] \<and>
   ok emptyBodyResponse \<and>
   \<not> isJsonContentType (contentType emptyBodyResponse) \<and>
   insights (api (handleFormSubmit (demoBrowser emptyBodyBackend) (Some [paperPdf])
      initialClient)) = None \<and>
   uiError (handleFormSubmit (demoBrowser emptyBodyBackend) (Some [paperPdf]) initialClient) =
     Some ''Empty response from API.''"
proof -
  let ?b = "demoBrowser emptyReportBackend"
  let ?e = "demoBrowser emptyBodyBackend"
  have url': "backendApiUrl ?e = Some ''http://localhost:8000/api/process-pdf/''"
    by (simp add: backendApiUrl_def demoBrowser_def)
  have plain: "ok emptyBodyResponse \<and> \<not> isJsonContentType (contentType emptyBodyResponse)"
    by (simp add: ok_def isJsonContentType_def emptyBodyResponse_def demoResponse_def)
  have thrown: "readInsights (fetch ?e
      (submitRequest ''http://localhost:8000/api/process-pdf/'' paperPdf)) =
      Inl ''Empty response from API.''"
    using plain
    by (simp add: readInsights_def demoBrowser_def emptyBodyBackend_def Let_def)
       (simp add: emptyBodyResponse_def)
  have friendly: "friendlyMessage ''Empty response from API.'' = ''Empty response from API.''"
    by (simp add: friendlyMessage_def Let_def toLowerCase_def)
  have page': "handleFormSubmit ?e (Some [paperPdf]) initialClient =
      (clearUIError initialClient)\<lparr>api := (api initialClient)\<lparr>isLoading := False\<rparr>,
         sent := sent (clearUIError initialClient) @
           [submitRequest ''http://localhost:8000/api/process-pdf/'' paperPdf],
         uiError := Some ''Empty response from API.''\<rparr>"
    by (simp only: handleFormSubmit_file submitPdf_thrown [OF url' thrown] applyApi_error
        friendly)
  have empty: "insights (api (handleFormSubmit ?e (Some [paperPdf]) initialClient)) = None \<and>
      uiError (handleFormSubmit ?e (Some [paperPdf]) initialClient) =
        Some ''Empty response from API.''"
    unfolding page' by (simp add: clearUIError_def initialClient_def)
  have url: "backendApiUrl ?b = Some ''http://localhost:8000/api/process-pdf/''"
    by (simp add: backendApiUrl_def demoBrowser_def)
  have json: "isJsonContentType (contentType emptyReportResponse)"
    by (simp add: isJsonContentType_def emptyReportResponse_def demoResponse_def)
  have okr: "ok emptyReportResponse"
    by (simp add: ok_def emptyReportResponse_def demoResponse_def)
  have has: "hasInsights emptyReportResponse []"
    by (simp add: hasInsights_def insightsMember_def emptyReportResponse_def demoResponse_def)
  have sent: "fetch ?b (submitRequest ''http://localhost:8000/api/process-pdf/'' paperPdf) =
      Responded emptyReportResponse"
    by (simp add: demoBrowser_def emptyReportBackend_def)
  have answer: "readInsights (fetch ?b
      (submitRequest ''http://localhost:8000/api/process-pdf/'' paperPdf)) = Inr []"
    using readInsights_ok_json [OF okr json, of "[]"] has by (simp add: sent)
  have page: "handleFormSubmit ?b (Some [paperPdf]) initialClient =
      (clearUIError initialClient)\<lparr>api := (api initialClient)\<lparr>insights := Some [], isLoading := False\<rparr>,
         sent := sent (clearUIError initialClient) @
           [submitRequest ''http://localhost:8000/api/process-pdf/'' paperPdf],
         uiError := None\<rparr>"
    by (simp only: handleFormSubmit_file submitPdf_read [OF url answer] applyApi_success)
  have view: "insights (api (handleFormSubmit ?b (Some [paperPdf]) initialClient)) = Some [] \<and>
      textSizeButtons (insightsPane ?b 14
        (handleFormSubmit ?b (Some [paperPdf]) initialClient)) = False \<and>
      saveButton (insightsPane ?b 14
        (handleFormSubmit ?b (Some [paperPdf]) initialClient)) = False \<and>
      renderedMarkdown (insightsPane ?b 14
        (handleFormSubmit ?b (Some [paperPdf]) initialClient)) = None"
    by (simp add: page insightsPane_def InsightsViewer_def viewerProps_def clearUIError_def
        Let_def)
  then have "\<not> reportShown ?b 14 (handleFormSubmit ?b (Some [paperPdf]) initialClient) []"
    by (auto simp: reportShown_def)
  with json okr has sent view plain empty show ?thesis
    by simp
qed

text \<open>
  C1, amended. For every 2xx response to the request of \<open>submitPdf\<close>: when its content
  type is JSON and its body is an object whose \<^verbatim>\<open>insights\<close> member is a string \<open>x\<close>
  that is not empty, the client stores \<open>x\<close>, renders it as markdown and shows the
  text-size buttons, the save button and, when testing is enabled, the test-content
  loader; when its content type is not JSON and its body text is not empty, the same
  holds of the body text. Every request \<open>submitPdf\<close> sends is a POST whose form has
  the one field \<^verbatim>\<open>pdf_file\<close>, holding the file.
\<close>

theorem backend_report_shown:
  "(backendApiUrl b = Some url \<and> fetch b (submitRequest url file) = Responded response \<and>
    ok response \<longrightarrow>
      (isJsonContentType (contentType response) \<and> hasInsights response x \<and> x \<noteq> [] \<longrightarrow>
         reportShown b textSize (handleFormSubmit b (Some (file # others)) c) x) \<and>
      (\<not> isJsonContentType (contentType response) \<and> text_body response \<noteq> [] \<longrightarrow>
         reportShown b textSize (handleFormSubmit b (Some (file # others)) c)
           (text_body response))) \<and>
   (\<forall>r \<in> set (requests (submitPdf b file s)).
      req_form r = [(''pdf_file'', file)] \<and> req_verb r = ''POST'')"
proof (intro conjI impI)
  assume run: "backendApiUrl b = Some url \<and>
    fetch b (submitRequest url file) = Responded response \<and> ok response"
  assume "isJsonContentType (contentType response) \<and> hasInsights response x \<and> x \<noteq> []"
  then have "readInsights (fetch b (submitRequest url file)) = Inr x" and "x \<noteq> []"
    using run readInsights_ok_json [of response x] by simp_all
  then show "reportShown b textSize (handleFormSubmit b (Some (file # others)) c) x"
    using run reportShown_after_success by simp
next
  assume run: "backendApiUrl b = Some url \<and>
    fetch b (submitRequest url file) = Responded response \<and> ok response"
  assume "\<not> isJsonContentType (contentType response) \<and> text_body response \<noteq> []"
  then have "readInsights (fetch b (submitRequest url file)) = Inr (text_body response)"
      and "text_body response \<noteq> []"
    using run readInsights_ok_text [of response] by simp_all
  then show "reportShown b textSize (handleFormSubmit b (Some (file # others)) c)
      (text_body response)"
    using run reportShown_after_success by simp
next
  show "\<forall>r \<in> set (requests (submitPdf b file s)).
      req_form r = [(''pdf_file'', file)] \<and> req_verb r = ''POST''"
    by (rule submitPdf_form)
qed

theorem backend_report_shown_witness:
  "reportShown (demoBrowser reportBackend) 14
     (handleFormSubmit (demoBrowser reportBackend) (Some [paperPdf]) initialClient) ''# Report'' \<and>
   reportShown (demoBrowser markdownBackend) 16
     (handleFormSubmit (demoBrowser markdownBackend) (Some [paperPdf]) initialClient) ''# Report'' \<and>
   requests (submitPdf (demoBrowser reportBackend) paperPdf (api initialClient)) =
     [\<lparr>req_url = ''http://localhost:8000/api/process-pdf/'', req_verb = ''POST'',
       req_form = [(''pdf_file'', paperPdf)]\<rparr>]"
proof -
  have url: "backendApiUrl (demoBrowser network) = Some ''http://localhost:8000/api/process-pdf/''"
    for network
    by (simp add: backendApiUrl_def demoBrowser_def)
  have okr: "ok demoResponse"
    by (simp add: ok_def demoResponse_def)
  have json: "isJsonContentType (contentType demoResponse)"
    by (simp add: isJsonContentType_def demoResponse_def)
  have has: "hasInsights demoResponse ''# Report''"
    by (simp add: hasInsights_def insightsMember_def demoResponse_def)
  have a: "reportShown (demoBrowser reportBackend) 14
     (handleFormSubmit (demoBrowser reportBackend) (Some [paperPdf]) initialClient) ''# Report''"
    using backend_report_shown [where b = "demoBrowser reportBackend"
        and url = "''http://localhost:8000/api/process-pdf/''" and ?file = paperPdf
        and response = demoResponse and x = "''# Report''" and textSize = 14
        and others = "[]" and c = initialClient] url okr json has
    by (simp add: demoBrowser_def reportBackend_def)
  have b: "reportShown (demoBrowser markdownBackend) 16
     (handleFormSubmit (demoBrowser markdownBackend) (Some [paperPdf]) initialClient) ''# Report''"
    using backend_report_shown [where b = "demoBrowser markdownBackend"
        and url = "''http://localhost:8000/api/process-pdf/''" and ?file = paperPdf
        and response = "demoResponse\<lparr>contentType := Some ''text/markdown; charset=utf-8'',
                  json_body := Inl ''Unexpected token # in JSON at position 0'',
                  text_body := ''# Report''\<rparr>" and textSize = 16
        and others = "[]" and c = initialClient] url
    by (simp add: demoBrowser_def markdownBackend_def ok_def demoResponse_def
        isJsonContentType_def)
  have c: "requests (submitPdf (demoBrowser reportBackend) paperPdf (api initialClient)) =
     [\<lparr>req_url = ''http://localhost:8000/api/process-pdf/'', req_verb = ''POST'',
       req_form = [(''pdf_file'', paperPdf)]\<rparr>]"
  proof -
    have "readInsights (fetch (demoBrowser reportBackend)
        (submitRequest ''http://localhost:8000/api/process-pdf/'' paperPdf)) = Inr ''# Report''"
      using readInsights_ok_json [OF okr json, of "''# Report''"] has
      by (simp add: demoBrowser_def reportBackend_def)
    from submitPdf_read [OF url this] show ?thesis
      by (simp add: submitRequest_def)
  qed
  from a b c show ?thesis by simp
qed


subsection \<open>The file effect changes the preview only\<close>

lemma uploadedFileEffect_frame:
  "api (uploadedFileEffect b c) = api c \<and>
   preload (uploadedFileEffect b c) = preload c \<and>
   sent (uploadedFileEffect b c) = sent c \<and>
   dropZoneDragging (uploadedFileEffect b c) = dropZoneDragging c \<and>
   upload (uploadedFileEffect b c) =
     (upload c)\<lparr>pdfFileError := pdfFileError (upload (uploadedFileEffect b c))\<rparr>"
  by (simp add: uploadedFileEffect_def Let_def setFileName_def setUIError_def clearUIError_def
      clearErrors_def split: option.splits list.splits ReadResult.splits)

lemma rerender_frame:
  "api (rerender b before after) = api after \<and>
   preload (rerender b before after) = preload after \<and>
   sent (rerender b before after) = sent after \<and>
   dropZoneDragging (rerender b before after) = dropZoneDragging after \<and>
   upload (rerender b before after) =
     (upload after)\<lparr>pdfFileError := pdfFileError (upload (rerender b before after))\<rparr>"
  using uploadedFileEffect_frame [of b after] by (simp add: rerender_def)

lemma upload_frame_fields:
  "u = v\<lparr>pdfFileError := e\<rparr> \<Longrightarrow>
   pdfFile u = pdfFile v \<and> pdfFileId u = pdfFileId v \<and> isUrlMode u = isUrlMode v \<and>
   isPreloadMode u = isPreloadMode v \<and> isUrlLoading u = isUrlLoading v"
  by simp

lemma act_frame:
  "api (act b handler c) = api (handler c) \<and>
   preload (act b handler c) = preload (handler c) \<and>
   sent (act b handler c) = sent (handler c) \<and>
   pdfFile (upload (act b handler c)) = pdfFile (upload (handler c)) \<and>
   pdfFileId (upload (act b handler c)) = pdfFileId (upload (handler c)) \<and>
   isUrlMode (upload (act b handler c)) = isUrlMode (upload (handler c)) \<and>
   isPreloadMode (upload (act b handler c)) = isPreloadMode (upload (handler c)) \<and>
   isUrlLoading (upload (act b handler c)) = isUrlLoading (upload (handler c))"
proof -
  have frame: "api (rerender b c (handler c)) = api (handler c) \<and>
      preload (rerender b c (handler c)) = preload (handler c) \<and>
      sent (rerender b c (handler c)) = sent (handler c)"
    using rerender_frame [of b c "handler c"] by blast
  have "upload (rerender b c (handler c)) =
      (upload (handler c))\<lparr>pdfFileError := pdfFileError (upload (rerender b c (handler c)))\<rparr>"
    using rerender_frame [of b c "handler c"] by blast
  from upload_frame_fields [OF this] frame show ?thesis
    unfolding act_def by blast
qed

subsection \<open>Input modes\<close>

lemma toggles_blocked:
  "fileLoaded s \<Longrightarrow> handleUrlModeToggle checked s = s \<and> handlePreloadModeToggle checked s = s"
  by (simp add: handleUrlModeToggle_def handlePreloadModeToggle_def)

lemma toggles_effective:
  "\<not> fileLoaded s \<Longrightarrow>
   isUrlMode (handleUrlModeToggle checked s) = checked \<and>
   isPreloadMode (handlePreloadModeToggle checked s) = checked"
  by (simp add: handleUrlModeToggle_def handlePreloadModeToggle_def clearErrors_def
      resetField_def)

lemma handleClearSelection_unloads:
  "\<not> fileLoaded (handleClearSelection s) \<and> \<not> isUrlMode (handleClearSelection s) \<and>
   \<not> isPreloadMode (handleClearSelection s)"
  by (simp add: handleClearSelection_def clearErrors_def resetField_def fileLoaded_def)

text \<open>
  C5, as stated, fails in its second half: toggling becomes possible again without
  \<open>handleClearSelection\<close>. With a PDF loaded the URL switch is blocked; dropping two
  files at once is rejected, which clears the form value; after that the URL switch
  is enabled and the toggle takes effect.
\<close>

theorem toggle_possible_after_rejected_drop:
  "fileLoaded (upload loadedClient) \<and>
   isUrlMode (handleUrlModeToggle True (upload loadedClient)) = False \<and>
   urlSwitchDisabled (demoBrowser offline) loadedClient \<and>
   pdfFile (upload (act (demoBrowser offline) (onDrop [paperPdf, otherPdf]) loadedClient)) = None \<and>
   \<not> urlSwitchDisabled (demoBrowser offline)
       (act (demoBrowser offline) (onDrop [paperPdf, otherPdf]) loadedClient) \<and>
   isUrlMode (handleUrlModeToggle True
     (upload (act (demoBrowser offline) (onDrop [paperPdf, otherPdf]) loadedClient))) = True"
proof -
  let ?c = "onDrop [paperPdf, otherPdf] loadedClient"
  let ?c' = "act (demoBrowser offline) (onDrop [paperPdf, otherPdf]) loadedClient"
  have before: "upload loadedClient = initialUploadState\<lparr>pdfFile := Some [paperPdf], pdfFileId := 1\<rparr>"
    by (simp add: loadedClient_def initialClient_def)
  have dropped: "upload ?c = initialUploadState\<lparr>pdfFile := None, pdfFileId := 1\<rparr> \<and>
      api ?c = \<lparr>insights = None, isLoading = False\<rparr> \<and> selectedPaper (preload ?c) = None"
    by (simp add: onDrop_def handleDrop_def dragDropProps_def loadedClient_def initialClient_def
        initialUploadState_def setUIError_def setValue_def formSchema_def isFileListOrNull_def
        sizeAccepted_def typeAccepted_def)
  have rendered: "pdfFile (upload ?c') = None \<and> isUrlLoading (upload ?c') = False \<and>
      isPreloadMode (upload ?c') = False \<and> api ?c' = \<lparr>insights = None, isLoading = False\<rparr> \<and>
      selectedPaper (preload ?c') = None"
    using act_frame [of "demoBrowser offline" "onDrop [paperPdf, otherPdf]" loadedClient] dropped
    by (simp add: initialUploadState_def)
  have blocked: "fileLoaded (upload loadedClient) \<and>
      isUrlMode (handleUrlModeToggle True (upload loadedClient)) = False \<and>
      urlSwitchDisabled (demoBrowser offline) loadedClient"
    by (simp add: before urlSwitchDisabled_def isUrlModeDisabled_def fileLoaded_def
        handleUrlModeToggle_def initialUploadState_def)
  have enabled: "\<not> urlSwitchDisabled (demoBrowser offline) ?c'"
    using rendered
    by (simp add: urlSwitchDisabled_def isUrlModeDisabled_def pageSelectedPaper_def
        fileLoaded_def)
  have unloaded: "\<not> fileLoaded (upload ?c')"
    using rendered by (simp add: fileLoaded_def)
  from toggles_effective [OF unloaded, of True] blocked enabled rendered
  show ?thesis by simp
qed

text \<open>
  C5, amended. In every state where a file is loaded (the form's \<^verbatim>\<open>pdfFile\<close> value is
  a non-empty \<^verbatim>\<open>FileList\<close>), \<open>handleUrlModeToggle\<close> and \<open>handlePreloadModeToggle\<close>
  leave the input mode, and the whole upload state, unchanged; in every state where no
  file is loaded they set the mode they are given. \<open>handleClearSelection\<close> empties the
  form value and switches both modes off, so that after it the toggles take effect.
\<close>

theorem mode_toggle_blocked_while_loaded:
  "(fileLoaded s \<longrightarrow>
      handleUrlModeToggle checked s = s \<and> handlePreloadModeToggle checked s = s) \<and>
   (\<not> fileLoaded s \<longrightarrow>
      isUrlMode (handleUrlModeToggle checked s) = checked \<and>
      isPreloadMode (handlePreloadModeToggle checked s) = checked) \<and>
   \<not> fileLoaded (handleClearSelection s) \<and>
   \<not> isUrlMode (handleClearSelection s) \<and> \<not> isPreloadMode (handleClearSelection s) \<and>
   isUrlMode (handleUrlModeToggle checked (handleClearSelection s)) = checked \<and>
   isPreloadMode (handlePreloadModeToggle checked (handleClearSelection s)) = checked"
  using toggles_blocked [of s checked] toggles_effective [of s checked]
    handleClearSelection_unloads [of s] toggles_effective [of "handleClearSelection s" checked]
  by simp

theorem mode_toggle_blocked_while_loaded_witness:
  "handleUrlModeToggle True (upload loadedClient) = upload loadedClient \<and>
   handlePreloadModeToggle True (upload loadedClient) = upload loadedClient \<and>
   isUrlMode (handleUrlModeToggle True (handleClearSelection (upload loadedClient))) = True \<and>
   isPreloadMode (handlePreloadModeToggle True initialUploadState) = True"
proof -
  have loaded: "fileLoaded (upload loadedClient)"
    by (simp add: fileLoaded_def loadedClient_def initialClient_def)
  have empty: "\<not> fileLoaded initialUploadState"
    by (simp add: fileLoaded_def initialUploadState_def)
  show ?thesis
    using mode_toggle_blocked_while_loaded [of "upload loadedClient" True]
      mode_toggle_blocked_while_loaded [of initialUploadState True] loaded empty
    by simp
qed


subsection \<open>Rejecting files\<close>

lemma rerender_no_file:
  "pdfFile (upload after) = None \<Longrightarrow>
   uiError (rerender b before after) = uiError after \<and>
   upload (rerender b before after) = upload after"
  by (simp add: rerender_def uploadedFileEffect_def Let_def)

lemma onDrop_busy:
  "isLoading (api c) \<or> isUrlLoading (upload c) \<Longrightarrow> onDrop files c = c\<lparr>dropZoneDragging := False\<rparr>"
  by (auto simp: onDrop_def handleDrop_def dragDropProps_def)

lemma formSchema_null: "formSchema None = None"
  by (simp add: formSchema_def isFileListOrNull_def sizeAccepted_def typeAccepted_def)

lemma formSchema_bad: "badFile f \<Longrightarrow> formSchema (Some (f # others)) \<noteq> None"
  by (auto simp: formSchema_def badFile_def isFileListOrNull_def sizeAccepted_def
      typeAccepted_def ACCEPTED_FILE_TYPES_def)

lemma formSchema_valid:
  "formSchema v = None \<Longrightarrow> v = None \<or> (\<exists>f others. v = Some (f # others) \<and> \<not> badFile f)"
  by (cases v; cases "the v")
     (auto simp: formSchema_def badFile_def isFileListOrNull_def sizeAccepted_def
        typeAccepted_def ACCEPTED_FILE_TYPES_def split: if_splits)

lemma onDrop_rejects:
  assumes "rejectedDrop files" and "\<not> isLoading (api c)" and "\<not> isUrlLoading (upload c)"
  shows "pdfFile (upload (onDrop files c)) = None \<and>
         pdfFileError (upload (onDrop files c)) = None \<and>
         (\<exists>m. m \<noteq> [] \<and> uiError (onDrop files c) = Some m) \<and>
         sent (onDrop files c) = sent c"
proof -
  from assms(1) consider "length files > 1"
    | f where "files = [f]" and "file_type f \<noteq> ''application/pdf''"
    | f where "files = [f]" and "file_type f = ''application/pdf''" and "file_size f > MAX_FILE_SIZE"
    by (auto simp: rejectedDrop_def badFile_def split: list.splits)
  then show ?thesis
  proof cases
    case 1
    then have "files \<noteq> []"
      by auto
    with 1 show ?thesis
      using assms(2,3)
      by (simp add: onDrop_def handleDrop_def dragDropProps_def setUIError_def setValue_def
          formSchema_null)
  next
    case 2
    then show ?thesis
      using assms(2,3)
      by (simp add: onDrop_def handleDrop_def dragDropProps_def setUIError_def setValue_def
          formSchema_null ACCEPTED_FILE_TYPES_def)
  next
    case 3
    then show ?thesis
      using assms(2,3)
      by (simp add: onDrop_def handleDrop_def dragDropProps_def setUIError_def setValue_def
          formSchema_null ACCEPTED_FILE_TYPES_def)
  qed
qed

lemma handleSubmit_invalid:
  "formSchema (pdfFile (upload c)) \<noteq> None \<Longrightarrow>
   handleSubmit b c = c\<lparr>upload := (upload c)\<lparr>pdfFileError := formSchema (pdfFile (upload c))\<rparr>\<rparr>"
  by (auto simp: handleSubmit_def Let_def)

lemma handleSubmit_null:
  "pdfFile (upload c) = None \<Longrightarrow> sent (handleSubmit b c) = sent c"
  by (simp add: handleSubmit_def Let_def formSchema_null handleFormSubmit_def setUIError_def)

lemma sent_applyApi: "sent (applyApi out c) = sent c @ requests out"
proof -
  have "sent (fold apiCallback cs c') = sent c'" for cs c'
  proof (induction cs arbitrary: c')
    case Nil
    then show ?case by simp
  next
    case (Cons a cs)
    then show ?case
      by (cases a) (simp_all add: setUIError_def clearUIError_def)
  qed
  then show ?thesis
    by (simp add: applyApi_def)
qed

lemma submitted_cases:
  "submitted b c = [] \<or>
   (\<exists>g others url. pdfFile (upload c) = Some (g # others) \<and> \<not> badFile g \<and>
      submitted b c = [submitRequest url g])"
proof (cases "formSchema (pdfFile (upload c)) = None")
  case False
  then show ?thesis
    by (simp add: submitted_def handleSubmit_invalid)
next
  case True
  from formSchema_valid [OF True] show ?thesis
  proof
    assume "pdfFile (upload c) = None"
    then show ?thesis
      by (simp add: submitted_def handleSubmit_null)
  next
    assume "\<exists>f others. pdfFile (upload c) = Some (f # others) \<and> \<not> badFile f"
    then obtain g others where g: "pdfFile (upload c) = Some (g # others)" "\<not> badFile g"
      by blast
    let ?c1 = "c\<lparr>upload := (upload c)\<lparr>pdfFileError := None\<rparr>\<rparr>"
    have run: "handleSubmit b c = applyApi (submitPdf b g (api ?c1)) (clearUIError ?c1)"
      using True g by (simp add: handleSubmit_def Let_def handleFormSubmit_file)
    have "submitted b c = requests (submitPdf b g (api ?c1))"
      by (simp add: submitted_def run sent_applyApi clearUIError_def)
    moreover have "requests (submitPdf b g (api ?c1)) = [] \<or>
        (\<exists>url. requests (submitPdf b g (api ?c1)) = [submitRequest url g])"
      by (simp add: submitPdf_def submitRequest_def Let_def split: option.splits sum.splits)
    ultimately show ?thesis
      using g by auto
  qed
qed

lemma submit_rejects_bad_file:
  assumes "pdfFile (upload c) = Some (f # others)" and "badFile f"
  shows "submitted b c = [] \<and>
         pdfFile (upload (handleSubmit b c)) = Some (f # others) \<and>
         pdfFileError (upload (handleSubmit b c)) \<noteq> None \<and>
         (isUrlMode (upload c) \<or> \<not> isPreloadMode (upload c) \<longrightarrow>
            formErrorShown (handleSubmit b c))"
proof -
  have bad: "formSchema (pdfFile (upload c)) \<noteq> None"
    using assms formSchema_bad [of f others] by simp
  from handleSubmit_invalid [OF bad]
  have run: "handleSubmit b c =
      c\<lparr>upload := (upload c)\<lparr>pdfFileError := formSchema (pdfFile (upload c))\<rparr>\<rparr>" .
  show ?thesis
    using assms(1) bad by (auto simp: submitted_def run formErrorShown_def)
qed

text \<open>
  C2, as stated, fails: while an analysis is running a drop is ignored. A text file
  dropped on the busy client is not submitted, but the form value is neither cleared
  nor marked invalid, and no error is shown.
\<close>

theorem busy_drop_ignored:
  "isLoading (api busyClient) \<and>
   file_type notesTxt \<noteq> ''application/pdf'' \<and>
   pdfFile (upload (act (demoBrowser offline) (onDrop [notesTxt]) busyClient)) = Some [paperPdf] \<and>
   pdfFileError (upload (act (demoBrowser offline) (onDrop [notesTxt]) busyClient)) = None \<and>
   uiError (act (demoBrowser offline) (onDrop [notesTxt]) busyClient) = None \<and>
   \<not> alertShown (act (demoBrowser offline) (onDrop [notesTxt]) busyClient) \<and>
   \<not> formErrorShown (act (demoBrowser offline) (onDrop [notesTxt]) busyClient)"
proof -
  have busy: "isLoading (api busyClient)"
    by (simp add: busyClient_def)
  have same: "act (demoBrowser offline) (onDrop [notesTxt]) busyClient = busyClient"
    using onDrop_busy [of busyClient "[notesTxt]"] busy
    by (simp add: act_def rerender_def busyClient_def loadedClient_def initialClient_def)
  show ?thesis
    unfolding same
    by (simp add: busyClient_def loadedClient_def initialClient_def initialUploadState_def
        alertShown_def formErrorShown_def notesTxt_def)
qed

text \<open>
  C2, amended. A drop of more than one file, or of one file whose MIME type is not
  \<^verbatim>\<open>application/pdf\<close> or whose size exceeds 15 MB, on a client that is not busy
  clears the form value and shows an error, and sends nothing; on a busy client
  (analysing or loading from a URL) the drop is ignored. A file of the wrong type or
  size that is in the form when it is submitted is rejected by the schema: nothing is
  sent, the form is marked invalid, and the message is shown in file and URL mode;
  so it is for such a file chosen in the file picker, which stores its selection in
  the form. In every state, a request sent by submitting the form carries, under
  \<^verbatim>\<open>pdf_file\<close>, the first file of the form, and that file is a PDF within the size
  ceiling.
\<close>

theorem invalid_upload_rejected:
  "(rejectedDrop files \<and> \<not> isLoading (api c) \<and> \<not> isUrlLoading (upload c) \<longrightarrow>
      pdfFile (upload (act b (onDrop files) c)) = None \<and>
      alertShown (act b (onDrop files) c) \<and>
      sent (act b (onDrop files) c) = sent c \<and>
      submitted b (act b (onDrop files) c) = []) \<and>
   (isLoading (api c) \<or> isUrlLoading (upload c) \<longrightarrow>
      act b (onDrop files) c = c\<lparr>dropZoneDragging := False\<rparr>) \<and>
   (pdfFile (upload c) = Some (f # others) \<and> badFile f \<longrightarrow>
      submitted b c = [] \<and>
      pdfFile (upload (handleSubmit b c)) = Some (f # others) \<and>
      pdfFileError (upload (handleSubmit b c)) \<noteq> None \<and>
      (isUrlMode (upload c) \<or> \<not> isPreloadMode (upload c) \<longrightarrow> formErrorShown (handleSubmit b c))) \<and>
   (badFile f \<and> \<not> isLoading (api c) \<and> \<not> isUrlLoading (upload c) \<and>
    \<not> isUrlMode (upload c) \<and> \<not> isPreloadMode (upload c) \<longrightarrow>
      pdfFile (upload (act b (onFileInputChange wasSubmitted (f # others)) c)) = Some (f # others) \<and>
      submitted b (act b (onFileInputChange wasSubmitted (f # others)) c) = [] \<and>
      formErrorShown (handleSubmit b (act b (onFileInputChange wasSubmitted (f # others)) c))) \<and>
   (\<forall>r \<in> set (submitted b c).
      \<exists>g rest. pdfFile (upload c) = Some (g # rest) \<and> \<not> badFile g \<and>
        req_form r = [(''pdf_file'', g)])"
proof (intro conjI impI)
  assume a: "rejectedDrop files \<and> \<not> isLoading (api c) \<and> \<not> isUrlLoading (upload c)"
  then have r: "pdfFile (upload (onDrop files c)) = None \<and>
         pdfFileError (upload (onDrop files c)) = None \<and>
         (\<exists>m. m \<noteq> [] \<and> uiError (onDrop files c) = Some m) \<and>
         sent (onDrop files c) = sent c"
    using onDrop_rejects [of files c] by simp
  then have e: "uiError (act b (onDrop files) c) = uiError (onDrop files c) \<and>
      upload (act b (onDrop files) c) = upload (onDrop files c)"
    using rerender_no_file [of "onDrop files c" b c] by (simp add: act_def)
  show "pdfFile (upload (act b (onDrop files) c)) = None"
    using r e by simp
  show "alertShown (act b (onDrop files) c)"
    using r e by (auto simp: alertShown_def)
  show "sent (act b (onDrop files) c) = sent c"
    using r act_frame [of b "onDrop files" c] by simp
  show "submitted b (act b (onDrop files) c) = []"
    using r e by (simp add: submitted_def handleSubmit_null)
next
  assume "isLoading (api c) \<or> isUrlLoading (upload c)"
  then show "act b (onDrop files) c = c\<lparr>dropZoneDragging := False\<rparr>"
    using onDrop_busy [of c files] by (simp add: act_def rerender_def)
next
  assume a: "pdfFile (upload c) = Some (f # others) \<and> badFile f"
  then have r: "submitted b c = [] \<and>
         pdfFile (upload (handleSubmit b c)) = Some (f # others) \<and>
         pdfFileError (upload (handleSubmit b c)) \<noteq> None \<and>
         (isUrlMode (upload c) \<or> \<not> isPreloadMode (upload c) \<longrightarrow>
            formErrorShown (handleSubmit b c))"
    using submit_rejects_bad_file [of c f others b] by simp
  show "submitted b c = []"
    using r by simp
  show "pdfFile (upload (handleSubmit b c)) = Some (f # others)"
    using r by simp
  show "pdfFileError (upload (handleSubmit b c)) \<noteq> None"
    using r by simp
  show "formErrorShown (handleSubmit b c)" if "isUrlMode (upload c) \<or> \<not> isPreloadMode (upload c)"
    using r that by simp
next
  let ?c' = "act b (onFileInputChange wasSubmitted (f # others)) c"
  assume a: "badFile f \<and> \<not> isLoading (api c) \<and> \<not> isUrlLoading (upload c) \<and>
    \<not> isUrlMode (upload c) \<and> \<not> isPreloadMode (upload c)"
  then have picked: "pdfFile (upload ?c') = Some (f # others) \<and> \<not> isPreloadMode (upload ?c')"
    using act_frame [of b "onFileInputChange wasSubmitted (f # others)" c]
    by (simp add: onFileInputChange_def)
  with a have r: "submitted b ?c' = [] \<and> formErrorShown (handleSubmit b ?c')"
    using submit_rejects_bad_file [of ?c' f others b] by simp
  show "pdfFile (upload ?c') = Some (f # others)"
    using picked by simp
  show "submitted b ?c' = []"
    using r by simp
  show "formErrorShown (handleSubmit b ?c')"
    using r by simp
next
  show "\<forall>r \<in> set (submitted b c).
      \<exists>g rest. pdfFile (upload c) = Some (g # rest) \<and> \<not> badFile g \<and>
        req_form r = [(''pdf_file'', g)]"
    using submitted_cases [of b c] by (auto simp: submitRequest_def)
qed

theorem invalid_upload_rejected_witness:
  "pdfFile (upload (act (demoBrowser reportBackend) (onDrop [notesTxt]) loadedClient)) = None \<and>
   alertShown (act (demoBrowser reportBackend) (onDrop [notesTxt]) loadedClient) \<and>
   alertShown (act (demoBrowser reportBackend) (onDrop [paperPdf, otherPdf]) loadedClient) \<and>
   act (demoBrowser reportBackend) (onDrop [notesTxt]) busyClient = busyClient \<and>
   submitted (demoBrowser reportBackend) pickedTextClient = [] \<and>
   formErrorShown (handleSubmit (demoBrowser reportBackend) pickedTextClient) \<and>
   submitted (demoBrowser reportBackend)
     (act (demoBrowser reportBackend) (onFileInputChange False [notesTxt]) initialClient) = [] \<and>
   submitted (demoBrowser reportBackend) loadedClient =
     [submitRequest ''http://localhost:8000/api/process-pdf/'' paperPdf] \<and>
   \<not> badFile paperPdf"
proof -
  let ?b = "demoBrowser reportBackend"
  have idle: "\<not> isLoading (api loadedClient) \<and> \<not> isUrlLoading (upload loadedClient)"
    by (simp add: loadedClient_def initialClient_def initialUploadState_def)
  have r1: "rejectedDrop [notesTxt]"
    by (simp add: rejectedDrop_def badFile_def notesTxt_def)
  have r2: "rejectedDrop [paperPdf, otherPdf]"
    by (simp add: rejectedDrop_def)
  have busy: "isLoading (api busyClient)"
    by (simp add: busyClient_def)
  have picked: "pdfFile (upload pickedTextClient) = Some (notesTxt # []) \<and> badFile notesTxt \<and>
      \<not> isPreloadMode (upload pickedTextClient)"
    by (simp add: pickedTextClient_def initialClient_def initialUploadState_def badFile_def
        notesTxt_def)
  have url: "backendApiUrl ?b = Some ''http://localhost:8000/api/process-pdf/''"
    by (simp add: backendApiUrl_def demoBrowser_def)
  have answer: "readInsights (fetch ?b
      (submitRequest ''http://localhost:8000/api/process-pdf/'' paperPdf)) = Inr ''# Report''"
    by (simp add: readInsights_def demoBrowser_def reportBackend_def ok_def demoResponse_def
        isJsonContentType_def getProp_def)
  have valid: "formSchema (Some [paperPdf]) = None"
    by (simp add: formSchema_def isFileListOrNull_def sizeAccepted_def typeAccepted_def
        paperPdf_def MAX_FILE_SIZE_def ACCEPTED_FILE_TYPES_def)
  have loaded: "pdfFile (upload loadedClient) = Some [paperPdf]"
    by (simp add: loadedClient_def initialClient_def)
  have sub: "submitted ?b loadedClient =
      [submitRequest ''http://localhost:8000/api/process-pdf/'' paperPdf]"
    by (simp add: submitted_def handleSubmit_def Let_def loaded valid handleFormSubmit_file
        submitPdf_read [OF url answer] sent_applyApi clearUIError_def)
  have a: "pdfFile (upload (act ?b (onDrop [notesTxt]) loadedClient)) = None \<and>
      alertShown (act ?b (onDrop [notesTxt]) loadedClient)"
    using invalid_upload_rejected [where b = "?b" and files = "[notesTxt]" and c = loadedClient]
      idle r1 by simp
  have b: "alertShown (act ?b (onDrop [paperPdf, otherPdf]) loadedClient)"
    using invalid_upload_rejected [where b = "?b" and files = "[paperPdf, otherPdf]"
        and c = loadedClient] idle r2 by simp
  have c: "act ?b (onDrop [notesTxt]) busyClient = busyClient"
    using invalid_upload_rejected [where b = "?b" and files = "[notesTxt]" and c = busyClient]
      busy by (simp add: busyClient_def loadedClient_def initialClient_def)
  have d: "submitted ?b pickedTextClient = [] \<and> formErrorShown (handleSubmit ?b pickedTextClient)"
    using invalid_upload_rejected [where b = "?b" and c = pickedTextClient and f = notesTxt
        and others = "[]"] picked by simp
  have fresh: "\<not> isLoading (api initialClient) \<and> \<not> isUrlLoading (upload initialClient) \<and>
      \<not> isUrlMode (upload initialClient) \<and> \<not> isPreloadMode (upload initialClient)"
    by (simp add: initialClient_def initialUploadState_def)
  have p: "submitted ?b (act ?b (onFileInputChange False [notesTxt]) initialClient) = []"
    using invalid_upload_rejected [where b = "?b" and c = initialClient and f = notesTxt
        and others = "[]" and wasSubmitted = False] picked fresh by simp
  have e: "\<not> badFile paperPdf"
    using invalid_upload_rejected [where b = "?b" and c = loadedClient] sub loaded by simp
  from a b c d e p sub show ?thesis by simp
qed


subsection \<open>Loading from a URL\<close>

lemma fetchPdfFile_accepts:
  assumes "fetch b (GET url) = Responded response" and "ok response"
    and "contentType response = Some ct" and "str_includes ct ''application/pdf''"
    and "blob_size (blob_body response) \<le> MAX_FILE_SIZE"
  shows "fetchPdfFile b url =
           Inr (newFile (blob_body response) (extractFileNameFromUrl b url) ''application/pdf'')"
  using assms by (cases ct) (simp_all add: fetchPdfFile_def)

lemma onLoadFromUrl_accepts:
  assumes "pdfUrlInputValue (upload c) = url" and "url \<noteq> []" and "startsWith (trim url) ''http''"
    and "fetchPdfFile b url = Inr f"
  shows "onLoadFromUrl b c =
           c\<lparr>upload := (upload c)\<lparr>isUrlLoading := False, urlError := None, pdfUrlInputValue := [],
                          pdfFile := Some [f], pdfFileId := Suc (pdfFileId (upload c)),
                          pdfFileError := formSchema (Some [f])\<rparr>,
             sent := sent c @ [GET url],
             pdf := updatePdfState (no_updates\<lparr>set_fileName := Some (Some (file_name f))\<rparr>) (pdf c)\<rparr>"
  using assms
  by (simp add: onLoadFromUrl_def handleLoadFromUrl_def Let_def setValue_def setFileName_def)

lemma onDrop_accepts:
  assumes "\<not> isLoading (api c)" and "\<not> isUrlLoading (upload c)"
    and "file_type f = ''application/pdf''" and "file_size f \<le> MAX_FILE_SIZE"
  shows "\<exists>u. pdfFileId u = pdfFileId (upload c) \<and>
           onDrop [f] c =
             c\<lparr>dropZoneDragging := False, uiError := Some [],
               upload := u\<lparr>pdfFile := Some [f], pdfFileId := Suc (pdfFileId (upload c)),
                          pdfFileError := formSchema (Some [f])\<rparr>\<rparr>"
proof (cases "isUrlMode (upload c)")
  case True
  have "pdfFileId (handleUrlModeToggle False (upload c)) = pdfFileId (upload c)"
    by (simp add: handleUrlModeToggle_def clearErrors_def resetField_def)
  moreover have "onDrop [f] c =
      c\<lparr>dropZoneDragging := False, uiError := Some [],
        upload := (handleUrlModeToggle False (upload c))\<lparr>pdfFile := Some [f],
           pdfFileId := Suc (pdfFileId (upload c)), pdfFileError := formSchema (Some [f])\<rparr>\<rparr>"
    using assms True calculation
    by (simp add: onDrop_def handleDrop_def dragDropProps_def setUIError_def setValue_def
        ACCEPTED_FILE_TYPES_def)
  ultimately show ?thesis by blast
next
  case False
  have "onDrop [f] c =
      c\<lparr>dropZoneDragging := False, uiError := Some [],
        upload := (upload c)\<lparr>pdfFile := Some [f],
           pdfFileId := Suc (pdfFileId (upload c)), pdfFileError := formSchema (Some [f])\<rparr>\<rparr>"
    using assms False
    by (simp add: onDrop_def handleDrop_def dragDropProps_def setUIError_def setValue_def
        ACCEPTED_FILE_TYPES_def)
  then show ?thesis by blast
qed

lemma fileName_twice:
  "updatePdfState (no_updates\<lparr>set_fileName := Some n\<rparr>)
     (updatePdfState (no_updates\<lparr>set_fileName := Some n\<rparr>) s) =
   updatePdfState (no_updates\<lparr>set_fileName := Some n\<rparr>) s"
  by (simp add: updatePdfState_def no_updates_def)

lemma uploadedFileEffect_pdf:
  assumes "pdfFile (upload x) = Some (f # others)" and "pdfFile (upload y) = Some (f # others)"
    and "updatePdfState (no_updates\<lparr>set_fileName := Some (Some (file_name f))\<rparr>) (pdf x) =
         updatePdfState (no_updates\<lparr>set_fileName := Some (Some (file_name f))\<rparr>) (pdf y)"
  shows "pdf (uploadedFileEffect b x) = pdf (uploadedFileEffect b y)"
  using assms
  by (simp add: uploadedFileEffect_def Let_def setFileName_def setUIError_def clearUIError_def
      split: ReadResult.splits)

lemma act_changed:
  "pdfFileId (upload (handler c)) \<noteq> pdfFileId (upload c) \<Longrightarrow>
   act b handler c = uploadedFileEffect b (handler c)"
  by (simp add: act_def rerender_def)

lemma submitted_valid:
  assumes "pdfFile (upload x) = Some (f # others)" and "formSchema (Some (f # others)) = None"
  shows "submitted b x = requests (submitPdf b f (api x))"
  using assms
  by (simp add: submitted_def handleSubmit_def Let_def handleFormSubmit_file sent_applyApi
      clearUIError_def)

lemma handleSubmit_valid_api:
  assumes "pdfFile (upload x) = Some (f # others)" and "formSchema (Some (f # others)) = None"
  shows "api (handleSubmit b x) = state (submitPdf b f (api x))"
proof -
  have "api (fold apiCallback cs c') = api c'" for cs c'
  proof (induction cs arbitrary: c')
    case Nil
    then show ?case by simp
  next
    case (Cons a cs)
    then show ?case
      by (cases a) (simp_all add: setUIError_def clearUIError_def)
  qed
  then show ?thesis
    using assms
    by (simp add: handleSubmit_def Let_def handleFormSubmit_file applyApi_def clearUIError_def)
qed

lemma formSchema_accepts:
  "file_type f = ''application/pdf'' \<Longrightarrow> file_size f \<le> MAX_FILE_SIZE \<Longrightarrow>
   formSchema (Some (f # others)) = None"
  by (simp add: formSchema_def isFileListOrNull_def sizeAccepted_def typeAccepted_def
      ACCEPTED_FILE_TYPES_def)

lemma onLoadFromUrl_refuses:
  assumes "\<not> startsWith (trim url) ''http''"
  shows "pdfFile (upload (act b (onLoadFromUrl b) (urlClient url))) = None \<and>
         sent (act b (onLoadFromUrl b) (urlClient url)) = [] \<and>
         urlError (upload (onLoadFromUrl b (urlClient url))) =
           Some ''Please enter a valid PDF URL (starting with http or https).''"
proof -
  let ?c = "urlClient url"
  have input: "pdfUrlInputValue (upload ?c) = url"
    by (simp add: urlClient_def initialClient_def initialUploadState_def)
  have refused: "onLoadFromUrl b ?c =
      ?c\<lparr>upload := (upload ?c)\<lparr>urlError :=
         Some ''Please enter a valid PDF URL (starting with http or https).''\<rparr>\<rparr>"
    using assms by (simp add: onLoadFromUrl_def handleLoadFromUrl_def Let_def input)
  have kept: "pdfFile (upload (onLoadFromUrl b ?c)) = None \<and> sent (onLoadFromUrl b ?c) = []"
    by (simp add: refused) (simp add: urlClient_def initialClient_def initialUploadState_def)
  then show ?thesis
    using act_frame [of b "onLoadFromUrl b" ?c] by (simp add: refused)
qed

lemma onLoadFromUrl_failed:
  assumes "startsWith (trim url) ''http''" and "url \<noteq> []" and "fetchPdfFile b url = Inl m"
  shows "pdfFile (upload (act b (onLoadFromUrl b) (urlClient url))) = None \<and>
         sent (act b (onLoadFromUrl b) (urlClient url)) = [GET url] \<and>
         urlError (upload (onLoadFromUrl b (urlClient url))) \<noteq> None"
proof -
  let ?c = "urlClient url"
  have input: "pdfUrlInputValue (upload ?c) = url" and empty: "\<not> fileLoaded (upload ?c)"
    and log: "sent ?c = []"
    by (simp_all add: urlClient_def initialClient_def initialUploadState_def fileLoaded_def)
  have r: "pdfFile (upload (onLoadFromUrl b ?c)) = None \<and> sent (onLoadFromUrl b ?c) = [GET url] \<and>
      urlError (upload (onLoadFromUrl b ?c)) \<noteq> None"
    using assms empty log
    by (simp add: onLoadFromUrl_def handleLoadFromUrl_def Let_def input setValue_def)
  then show ?thesis
    using act_frame [of b "onLoadFromUrl b" ?c] by simp
qed

text \<open>
  C4, as stated, fails: not every URL whose fetch returns a PDF is loaded.
  \<open>handleLoadFromUrl\<close> accepts only input that starts with \<^verbatim>\<open>http\<close>. For the URL
  \<^verbatim>\<open>HTTPS://EXAMPLE.ORG/papers/attention.pdf\<close>, and for the path of a PDF that the
  client itself serves, a fetch would return \<^verbatim>\<open>Content-Type: application/pdf\<close> and
  1 kB, but nothing is sent and the form stays empty, while a local upload of the same
  content fills it. And a response with that content type and size whose status is
  404 is fetched and refused.
\<close>

theorem url_without_http_prefix_not_loaded:
  "fetch (demoBrowser pdfServer) (GET ''HTTPS://EXAMPLE.ORG/papers/attention.pdf'') =
     Responded pdfResponse \<and>
   fetch (demoBrowser pdfServer) (GET ''/data/preload/PDF/attention.pdf'') = Responded pdfResponse \<and>
   ok pdfResponse \<and>
   contentType pdfResponse = Some ''application/pdf'' \<and>
   blob_size (blob_body pdfResponse) \<le> MAX_FILE_SIZE \<and>
   pdfFile (upload (act (demoBrowser pdfServer) (onLoadFromUrl (demoBrowser pdfServer))
      (urlClient ''HTTPS://EXAMPLE.ORG/papers/attention.pdf''))) = None \<and>
   sent (act (demoBrowser pdfServer) (onLoadFromUrl (demoBrowser pdfServer))
      (urlClient ''HTTPS://EXAMPLE.ORG/papers/attention.pdf'')) = [] \<and>
   pdfFile (upload (act (demoBrowser pdfServer) (onDrop [downloadedPdf])
      (urlClient ''HTTPS://EXAMPLE.ORG/papers/attention.pdf''))) = Some [downloadedPdf] \<and>
   pdfFile (upload (act (demoBrowser pdfServer) (onLoadFromUrl (demoBrowser pdfServer))
      (urlClient ''/data/preload/PDF/attention.pdf''))) = None \<and>
   pdfFile (upload (act (demoBrowser pdfServer) (onDrop [downloadedPdf])
      (urlClient ''/data/preload/PDF/attention.pdf''))) = Some [downloadedPdf] \<and>
   fetch (demoBrowser notFoundServer) (GET ''https://example.org/papers/attention.pdf'') =
     Responded notFoundResponse \<and>
   contentType notFoundResponse = Some ''application/pdf'' \<and>
   blob_size (blob_body notFoundResponse) \<le> MAX_FILE_SIZE \<and>
   pdfFile (upload (act (demoBrowser notFoundServer) (onLoadFromUrl (demoBrowser notFoundServer))
      (urlClient ''https://example.org/papers/attention.pdf''))) = None \<and>
   sent (act (demoBrowser notFoundServer) (onLoadFromUrl (demoBrowser notFoundServer))
      (urlClient ''https://example.org/papers/attention.pdf'')) =
     [GET ''https://example.org/papers/attention.pdf'']"
proof -
  let ?b = "demoBrowser pdfServer"
  let ?n = "demoBrowser notFoundServer"
  have missing: "fetch ?n (GET ''https://example.org/papers/attention.pdf'') =
      Responded notFoundResponse \<and>
      contentType notFoundResponse = Some ''application/pdf'' \<and>
      blob_size (blob_body notFoundResponse) \<le> MAX_FILE_SIZE"
    by (simp add: demoBrowser_def notFoundServer_def notFoundResponse_def pdfResponse_def
        MAX_FILE_SIZE_def)
  have http: "startsWith (trim ''https://example.org/papers/attention.pdf'') ''http''"
    by (simp add: trim_def isWhiteSpace_def)
  have "\<exists>m. fetchPdfFile ?n ''https://example.org/papers/attention.pdf'' = Inl m"
    using missing
    by (simp add: fetchPdfFile_def ok_def notFoundResponse_def pdfResponse_def)
  then obtain m where "fetchPdfFile ?n ''https://example.org/papers/attention.pdf'' = Inl m" ..
  from onLoadFromUrl_failed [OF http _ this]
  have refused: "pdfFile (upload (act ?n (onLoadFromUrl ?n)
        (urlClient ''https://example.org/papers/attention.pdf''))) = None \<and>
      sent (act ?n (onLoadFromUrl ?n) (urlClient ''https://example.org/papers/attention.pdf'')) =
        [GET ''https://example.org/papers/attention.pdf'']"
    by simp
  have server: "fetch ?b (GET url) = Responded pdfResponse \<and>
      ok pdfResponse \<and> contentType pdfResponse = Some ''application/pdf'' \<and>
      blob_size (blob_body pdfResponse) \<le> MAX_FILE_SIZE" for url
    by (simp add: demoBrowser_def pdfServer_def pdfResponse_def ok_def MAX_FILE_SIZE_def)
  have upper: "\<not> startsWith (trim ''HTTPS://EXAMPLE.ORG/papers/attention.pdf'') ''http''"
    by (simp add: trim_def isWhiteSpace_def)
  have relative: "\<not> startsWith (trim ''/data/preload/PDF/attention.pdf'') ''http''"
    by (simp add: trim_def isWhiteSpace_def)
  have pdf: "file_type downloadedPdf = ''application/pdf'' \<and>
      file_size downloadedPdf \<le> MAX_FILE_SIZE"
    by (simp add: downloadedPdf_def newFile_def pdfResponse_def MAX_FILE_SIZE_def)
  have local: "pdfFile (upload (act ?b (onDrop [downloadedPdf]) (urlClient url))) =
      Some [downloadedPdf]" for url
  proof -
    have idle: "\<not> isLoading (api (urlClient url)) \<and> \<not> isUrlLoading (upload (urlClient url))"
      by (simp add: urlClient_def initialClient_def initialUploadState_def)
    from onDrop_accepts [of "urlClient url" downloadedPdf] idle pdf
    have "pdfFile (upload (onDrop [downloadedPdf] (urlClient url))) = Some [downloadedPdf]"
      by auto
    then show ?thesis
      using act_frame [of ?b "onDrop [downloadedPdf]" "urlClient url"] by simp
  qed
  from server onLoadFromUrl_refuses [OF upper, of ?b] onLoadFromUrl_refuses [OF relative, of ?b]
    local missing refused
  show ?thesis by simp
qed

text \<open>
  C4, amended. For every URL input that starts with \<^verbatim>\<open>http\<close> (after trimming) and
  whose fetch returns a 2xx response with a content type that contains
  \<^verbatim>\<open>application/pdf\<close> and a body of at most 15 MB, loading by URL on a client that is
  not busy yields the same form value, the same preview state and the same submitted
  payload (and the same result of the analysis) as dropping the file built from that
  body, named as \<open>extractFileNameFromUrl\<close> names it.
\<close>

theorem url_load_matches_local_upload:
  assumes "pdfUrlInputValue (upload c) = url" and "url \<noteq> []" and "startsWith (trim url) ''http''"
    and "fetch b (GET url) = Responded response" and "ok response"
    and "contentType response = Some ct" and "str_includes ct ''application/pdf''"
    and "blob_size (blob_body response) \<le> MAX_FILE_SIZE"
    and "\<not> isLoading (api c)" and "\<not> isUrlLoading (upload c)"
    and "f = newFile (blob_body response) (extractFileNameFromUrl b url) ''application/pdf''"
  shows "pdfFile (upload (act b (onLoadFromUrl b) c)) = Some [f] \<and>
         pdfFile (upload (act b (onDrop [f]) c)) = Some [f] \<and>
         pdf (act b (onLoadFromUrl b) c) = pdf (act b (onDrop [f]) c) \<and>
         submitted b (act b (onLoadFromUrl b) c) = submitted b (act b (onDrop [f]) c) \<and>
         api (handleSubmit b (act b (onLoadFromUrl b) c)) =
           api (handleSubmit b (act b (onDrop [f]) c))"
proof -
  let ?U = "onLoadFromUrl b c"
  let ?D = "onDrop [f] c"
  have fetched: "fetchPdfFile b url = Inr f"
    using fetchPdfFile_accepts [OF assms(4-8)] assms(11) by simp
  have pdf: "file_type f = ''application/pdf''" "file_size f \<le> MAX_FILE_SIZE"
    using assms(8,11) by (simp_all add: newFile_def)
  have valid: "formSchema (Some [f]) = None"
    using pdf by (rule formSchema_accepts)
  note U = onLoadFromUrl_accepts [OF assms(1-3) fetched]
  from onDrop_accepts [OF assms(9,10) pdf] obtain u where
    D: "onDrop [f] c =
          c\<lparr>dropZoneDragging := False, uiError := Some [],
            upload := u\<lparr>pdfFile := Some [f], pdfFileId := Suc (pdfFileId (upload c)),
                       pdfFileError := formSchema (Some [f])\<rparr>\<rparr>"
    by blast
  have fileU: "pdfFile (upload ?U) = Some [f]" and apiU: "api ?U = api c"
    and idU: "pdfFileId (upload ?U) \<noteq> pdfFileId (upload c)"
    and pdfU: "pdf ?U = updatePdfState (no_updates\<lparr>set_fileName := Some (Some (file_name f))\<rparr>) (pdf c)"
    by (simp_all add: U)
  have fileD: "pdfFile (upload ?D) = Some [f]" and apiD: "api ?D = api c"
    and idD: "pdfFileId (upload ?D) \<noteq> pdfFileId (upload c)"
    and pdfD: "pdf ?D = pdf c"
    by (simp_all add: D)
  have actU: "act b (onLoadFromUrl b) c = uploadedFileEffect b ?U"
    using idU by (rule act_changed)
  have actD: "act b (onDrop [f]) c = uploadedFileEffect b ?D"
    using idD by (rule act_changed)
  have file1: "pdfFile (upload (act b (onLoadFromUrl b) c)) = Some [f]"
    using act_frame [of b "onLoadFromUrl b" c] fileU by simp
  have file2: "pdfFile (upload (act b (onDrop [f]) c)) = Some [f]"
    using act_frame [of b "onDrop [f]" c] fileD by simp
  have api1: "api (act b (onLoadFromUrl b) c) = api c"
    using act_frame [of b "onLoadFromUrl b" c] apiU by simp
  have api2: "api (act b (onDrop [f]) c) = api c"
    using act_frame [of b "onDrop [f]" c] apiD by simp
  have preview: "pdf (act b (onLoadFromUrl b) c) = pdf (act b (onDrop [f]) c)"
    unfolding actU actD
    using fileU fileD
    by (rule uploadedFileEffect_pdf) (simp add: pdfU pdfD fileName_twice)
  have payload: "submitted b (act b (onLoadFromUrl b) c) = submitted b (act b (onDrop [f]) c)"
    using submitted_valid [OF file1 valid, of b] submitted_valid [OF file2 valid, of b]
    by (simp add: api1 api2)
  have result: "api (handleSubmit b (act b (onLoadFromUrl b) c)) =
      api (handleSubmit b (act b (onDrop [f]) c))"
    using handleSubmit_valid_api [OF file1 valid, of b] handleSubmit_valid_api [OF file2 valid, of b]
    by (simp add: api1 api2)
  from file1 file2 preview payload result show ?thesis by simp
qed

theorem url_load_matches_local_upload_witness:
  "pdfFile (upload (act (demoBrowser pdfServer) (onLoadFromUrl (demoBrowser pdfServer))
      (urlClient ''https://example.org/papers/attention.pdf''))) = Some [downloadedPdf] \<and>
   pdf (act (demoBrowser pdfServer) (onLoadFromUrl (demoBrowser pdfServer))
      (urlClient ''https://example.org/papers/attention.pdf'')) =
   pdf (act (demoBrowser pdfServer) (onDrop [downloadedPdf])
      (urlClient ''https://example.org/papers/attention.pdf'')) \<and>
   submitted (demoBrowser pdfServer)
     (act (demoBrowser pdfServer) (onLoadFromUrl (demoBrowser pdfServer))
        (urlClient ''https://example.org/papers/attention.pdf'')) =
   submitted (demoBrowser pdfServer)
     (act (demoBrowser pdfServer) (onDrop [downloadedPdf])
        (urlClient ''https://example.org/papers/attention.pdf''))"
proof -
  let ?b = "demoBrowser pdfServer"
  let ?url = "''https://example.org/papers/attention.pdf''"
  have input: "pdfUrlInputValue (upload (urlClient ?url)) = ?url"
    by (simp add: urlClient_def initialClient_def initialUploadState_def)
  have http: "startsWith (trim ?url) ''http''"
    by (simp add: trim_def isWhiteSpace_def)
  have server: "fetch ?b (GET ?url) = Responded pdfResponse"
    by (simp add: demoBrowser_def pdfServer_def)
  have okr: "ok pdfResponse"
    by (simp add: ok_def pdfResponse_def)
  have ct: "contentType pdfResponse = Some ''application/pdf''"
    by (simp add: pdfResponse_def)
  have inc: "str_includes ''application/pdf'' ''application/pdf''"
    by simp
  have small: "blob_size (blob_body pdfResponse) \<le> MAX_FILE_SIZE"
    by (simp add: pdfResponse_def MAX_FILE_SIZE_def)
  have idle: "\<not> isLoading (api (urlClient ?url))" "\<not> isUrlLoading (upload (urlClient ?url))"
    by (simp_all add: urlClient_def initialClient_def initialUploadState_def)
  have name: "extractFileNameFromUrl ?b ?url = ''attention.pdf''"
    by (simp add: extractFileNameFromUrl_def demoBrowser_def Let_def sanitizeChar_def
        endsWith_def)
  have built: "downloadedPdf =
      newFile (blob_body pdfResponse) (extractFileNameFromUrl ?b ?url) ''application/pdf''"
    by (simp add: downloadedPdf_def name)
  from url_load_matches_local_upload [OF input _ http server okr ct inc small idle built]
  show ?thesis by simp
qed


subsection \<open>Loading a preloaded example\<close>
























end
